theory Spec2Isabelle
  imports Main
begin

section \<open>Values, documents and errors\<close>

text \<open>
  JavaScript values as far as the controllers look at them: request-body entries,
  document fields, token claims and span attribute values.
\<close>

datatype jval = JUndefined | JNull | JBool bool | JNum int | JStr string | JDate nat

text \<open>JavaScript truthiness, as used by \<^verbatim>\<open>!x\<close> and \<^verbatim>\<open>a || b\<close>.\<close>

fun truthy :: "jval \<Rightarrow> bool" where
  "truthy JUndefined = False"
| "truthy JNull = False"
| "truthy (JBool b) = b"
| "truthy (JNum n) = (n \<noteq> 0)"
| "truthy (JStr s) = (s \<noteq> [])"
| "truthy (JDate t) = True"

text \<open>
  The paths of \<^verbatim>\<open>userSchema\<close> (users.model.js); \<^verbatim>\<open>{timestamps: true}\<close> adds
  \<^verbatim>\<open>createdAt\<close> and \<^verbatim>\<open>updatedAt\<close>, Mongoose adds the version key \<^verbatim>\<open>__v\<close>.
\<close>

datatype field =
    UserName | Email | Password | LastUpdate | RegistrationDate | DeletedAt
  | IsDeleted | RefreshToken | CreatedAt | UpdatedAt | Version

text \<open>
  A user document: its \<^verbatim>\<open>_id\<close> (the hexadecimal text of the ObjectId) and the fields it
  carries. A field left out by a projection is absent from the list.
\<close>

record document =
  doc_id :: string
  doc_fields :: "(field \<times> jval) list"

text \<open>Reading \<^verbatim>\<open>doc.f\<close>: an absent field reads as \<^verbatim>\<open>undefined\<close>.\<close>

definition get :: "field \<Rightarrow> document \<Rightarrow> jval" where
  "get f d = (case map_of (doc_fields d) f of None \<Rightarrow> JUndefined | Some v \<Rightarrow> v)"

fun assign_list :: "field \<Rightarrow> jval \<Rightarrow> (field \<times> jval) list \<Rightarrow> (field \<times> jval) list" where
  "assign_list k v [] = [(k, v)]"
| "assign_list k v (p # ps) = (if fst p = k then (k, v) # ps else p # assign_list k v ps)"

text \<open>The assignment \<^verbatim>\<open>doc.f = v\<close>.\<close>

definition assign :: "field \<Rightarrow> jval \<Rightarrow> document \<Rightarrow> document" where
  "assign k v d = d\<lparr>doc_fields := assign_list k v (doc_fields d)\<rparr>"

text \<open>
  \<^verbatim>\<open>query.select("-password -__v")\<close>: an exclusion projection, given here by the list
  of excluded paths. The \<^verbatim>\<open>_id\<close> is kept.
\<close>

definition select_excl :: "field list \<Rightarrow> document \<Rightarrow> document" where
  "select_excl fs d = d\<lparr>doc_fields := filter (\<lambda>p. fst p \<notin> set fs) (doc_fields d)\<rparr>"

definition has_field :: "field \<Rightarrow> document \<Rightarrow> bool" where
  "has_field f d = (f \<in> fst ` set (doc_fields d))"

text \<open>
  Thrown values. \<^verbatim>\<open>new ApiError(statusCode, message)\<close> keeps both arguments; of every
  other error (a TypeError of the engine, an error of Mongoose, bcryptjs or jsonwebtoken)
  the code reads the message only.
\<close>

datatype exn = ApiError nat string | TypeError string | Error string

fun statusCode :: "exn \<Rightarrow> nat option" where
  "statusCode (ApiError c m) = Some c"
| "statusCode (TypeError m) = None"
| "statusCode (Error m) = None"

fun message :: "exn \<Rightarrow> string" where
  "message (ApiError c m) = m"
| "message (TypeError m) = m"
| "message (Error m) = m"

section \<open>Spans\<close>

text \<open>
  The tracer as a recording sink: every started span is kept, with the number of
  \<^verbatim>\<open>end()\<close> calls it received. A handle is the position of the span in the sink.
  As in the OpenTelemetry SDK, \<^verbatim>\<open>setAttribute\<close> and \<^verbatim>\<open>recordException\<close> on a span
  that has ended change nothing.
\<close>

record span =
  span_name :: string
  parent :: "nat option"
  attributes :: "(string \<times> jval) list"
  exceptions :: "exn list"
  ends :: nat

text \<open>
  A query filter: \<^verbatim>\<open>{ f: v }\<close> and \<^verbatim>\<open>{ $or: [...] }\<close>.
\<close>

datatype query = Eq field jval | Or "query list"

text \<open>The calls a request makes to its collaborators, in order.\<close>

datatype call =
    FindOne query
  | FindById jval
  | Create "(field \<times> jval) list"
  | Save document
  | FindByIdAndUpdate jval "(field \<times> jval) list"
  | JwtVerify string

text \<open>
  The response envelope. \<^verbatim>\<open>new ApiResponse(statusCode, data, message)\<close> on success,
  \<^verbatim>\<open>{ error: message }\<close> from the catch blocks.
\<close>

datatype payload =
    PNull
  | PDoc document
  | PLogin string document string

datatype body = ApiResponse nat payload string | ErrorBody string

record response =
  status :: nat
  json :: body

text \<open>
  What a request changes: the spans of the sink, the user collection, the response
  sent so far (if any), and the log of collaborator calls.
\<close>

record 'db state =
  tracer :: "span list"
  db :: 'db
  res :: "response option"
  calls :: "call list"

definition startSpan :: "string \<Rightarrow> nat option \<Rightarrow> 'db state \<Rightarrow> nat \<times> 'db state" where
  "startSpan n p s =
     (length (tracer s),
      s\<lparr>tracer := tracer s @
         [\<lparr>span_name = n, parent = p, attributes = [], exceptions = [], ends = 0\<rparr>]\<rparr>)"

definition on_span :: "nat \<Rightarrow> (span \<Rightarrow> span) \<Rightarrow> 'db state \<Rightarrow> 'db state" where
  "on_span h f s =
     (if h < length (tracer s) then s\<lparr>tracer := (tracer s)[h := f (tracer s ! h)]\<rparr> else s)"

definition setAttribute :: "nat \<Rightarrow> string \<Rightarrow> jval \<Rightarrow> 'db state \<Rightarrow> 'db state" where
  "setAttribute h k v =
     on_span h (\<lambda>sp. if ends sp = 0 then sp\<lparr>attributes := attributes sp @ [(k, v)]\<rparr> else sp)"

definition recordException :: "nat \<Rightarrow> exn \<Rightarrow> 'db state \<Rightarrow> 'db state" where
  "recordException h e =
     on_span h (\<lambda>sp. if ends sp = 0 then sp\<lparr>exceptions := exceptions sp @ [e]\<rparr> else sp)"

definition endSpan :: "nat \<Rightarrow> 'db state \<Rightarrow> 'db state" where
  "endSpan h = on_span h (\<lambda>sp. sp\<lparr>ends := Suc (ends sp)\<rparr>)"

text \<open>\<^verbatim>\<open>res.status(c).json(b)\<close>.\<close>

definition respond :: "nat \<Rightarrow> body \<Rightarrow> 'db state \<Rightarrow> 'db state" where
  "respond c b s = s\<lparr>res := Some \<lparr>status = c, json = b\<rparr>\<rparr>"

section \<open>Collaborators\<close>

text \<open>
  The Mongoose model \<^verbatim>\<open>User\<close> over a collection of type \<open>'db\<close>. Every operation may
  throw; a read leaves the collection as it is, a write returns the collection it
  leaves behind. The operations return stored documents in full: projections are
  applied by \<open>select_excl\<close>.
\<close>

record 'db model =
  findOne :: "query \<Rightarrow> 'db \<Rightarrow> exn + document option"
  findById :: "jval \<Rightarrow> 'db \<Rightarrow> exn + document option"
  create :: "(field \<times> jval) list \<Rightarrow> 'db \<Rightarrow> (exn + document option) \<times> 'db"
  save :: "document \<Rightarrow> 'db \<Rightarrow> exn option \<times> 'db"
  findByIdAndUpdate ::
    "jval \<Rightarrow> (field \<times> jval) list \<Rightarrow> 'db \<Rightarrow> (exn + document option) \<times> 'db"

text \<open>
  The process environment and the libraries: the clock behind \<^verbatim>\<open>new Date()\<close>, the
  generator of ObjectIds (by a running number), \<^verbatim>\<open>bcrypt.hash(s, 10)\<close> and
  \<^verbatim>\<open>bcrypt.compare\<close> on two strings, \<^verbatim>\<open>jwt.sign(payload, secret, {expiresIn})\<close> and
  \<^verbatim>\<open>jwt.verify(token, secret)\<close>, and the four \<^verbatim>\<open>process.env\<close> entries the code reads.
\<close>

record env =
  now :: nat
  new_ObjectId :: "nat \<Rightarrow> string"
  bcrypt_hash :: "string \<Rightarrow> string"
  bcrypt_compare :: "string \<Rightarrow> string \<Rightarrow> bool"
  jwt_sign :: "(string \<times> jval) list \<Rightarrow> jval \<Rightarrow> jval \<Rightarrow> exn + string"
  jwt_verify :: "string \<Rightarrow> jval \<Rightarrow> exn + (string \<times> jval) list"
  ACCESS_TOKEN_SECRET :: jval
  ACCESS_TOKEN_EXPIRY :: jval
  REFRESH_TOKEN_SECRET :: jval
  REFRESH_TOKEN_EXPIRY :: jval

definition User_findOne ::
  "'db model \<Rightarrow> query \<Rightarrow> 'db state \<Rightarrow> (exn + document option) \<times> 'db state" where
  "User_findOne U q s = (findOne U q (db s), s\<lparr>calls := calls s @ [FindOne q]\<rparr>)"

definition User_findById ::
  "'db model \<Rightarrow> jval \<Rightarrow> 'db state \<Rightarrow> (exn + document option) \<times> 'db state" where
  "User_findById U i s = (findById U i (db s), s\<lparr>calls := calls s @ [FindById i]\<rparr>)"

definition User_create ::
  "'db model \<Rightarrow> (field \<times> jval) list \<Rightarrow> 'db state \<Rightarrow> (exn + document option) \<times> 'db state" where
  "User_create U fs s =
     (case create U fs (db s) of
        (r, d) \<Rightarrow> (r, s\<lparr>db := d, calls := calls s @ [Create fs]\<rparr>))"

definition User_save :: "'db model \<Rightarrow> document \<Rightarrow> 'db state \<Rightarrow> exn option \<times> 'db state" where
  "User_save U doc s =
     (case save U doc (db s) of
        (r, d) \<Rightarrow> (r, s\<lparr>db := d, calls := calls s @ [Save doc]\<rparr>))"

definition User_findByIdAndUpdate ::
  "'db model \<Rightarrow> jval \<Rightarrow> (field \<times> jval) list \<Rightarrow> 'db state
     \<Rightarrow> (exn + document option) \<times> 'db state" where
  "User_findByIdAndUpdate U i fs s =
     (case findByIdAndUpdate U i fs (db s) of
        (r, d) \<Rightarrow> (r, s\<lparr>db := d, calls := calls s @ [FindByIdAndUpdate i fs]\<rparr>))"

section \<open>The user model's methods (users.model.js)\<close>

text \<open>
  \<^verbatim>\<open>isPasswordCorrect\<close>: \<^verbatim>\<open>bcrypt.compare(password, this.password)\<close>, which rejects
  arguments that are not two strings.
\<close>

definition isPasswordCorrect :: "env \<Rightarrow> document \<Rightarrow> jval \<Rightarrow> exn + bool" where
  "isPasswordCorrect E this password =
     (case (password, get Password this) of
        (JStr p, JStr h) \<Rightarrow> Inr (bcrypt_compare E p h)
      | _ \<Rightarrow> Inl (Error ''Illegal arguments''))"

text \<open>
  \<^verbatim>\<open>generateAccessToken\<close> reads \<^verbatim>\<open>this.username\<close> and \<^verbatim>\<open>this.fullName\<close>, which are
  not paths of the schema and so are \<^verbatim>\<open>undefined\<close>.
\<close>

definition generateAccessToken :: "env \<Rightarrow> document \<Rightarrow> exn + string" where
  "generateAccessToken E this =
     jwt_sign E
       [(''_id'', JStr (doc_id this)), (''email'', get Email this),
        (''username'', JUndefined), (''fullName'', JUndefined)]
       (ACCESS_TOKEN_SECRET E) (ACCESS_TOKEN_EXPIRY E)"

definition generateRefreshToken :: "env \<Rightarrow> document \<Rightarrow> exn + string" where
  "generateRefreshToken E this =
     jwt_sign E [(''_id'', JStr (doc_id this))]
       (REFRESH_TOKEN_SECRET E) (REFRESH_TOKEN_EXPIRY E)"

section \<open>Requests\<close>

record reqbody =
  b_userName :: jval
  b_email :: jval
  b_password :: jval

text \<open>
  \<^verbatim>\<open>req.body\<close> is the parsed JSON object, of which the controllers read three keys; a
  key that is absent reads as \<^verbatim>\<open>undefined\<close>. \<^verbatim>\<open>req.cookies\<close> is \<^verbatim>\<open>undefined\<close> without a
  cookie parser; \<^verbatim>\<open>req.user\<close> is set by \<^verbatim>\<open>verifyJWT\<close> only; \<^verbatim>\<open>req.params.id\<close> is the
  \<^verbatim>\<open>:id\<close> segment of the update and delete routes.
\<close>

record request =
  req_cookies :: "(string \<times> string) list option"
  req_authorization :: "string option"
  req_body :: reqbody
  req_user :: "document option"
  req_params_id :: "string option"

section \<open>The controllers (users.controller.js)\<close>

text \<open>
  A \<^verbatim>\<open>try\<close> block is a function to the pair of the thrown value, if any, and the state
  at the point where the block was left: that is the state the \<^verbatim>\<open>catch\<close> and
  \<^verbatim>\<open>finally\<close> blocks go on from.
\<close>

text \<open>
  \<^verbatim>\<open>generateAccessAndRefreshTokens\<close>: its \<^verbatim>\<open>catch\<close> turns whatever was thrown into
  \<^verbatim>\<open>ApiError(500, ...)\<close>. The document it saves is its own \<^verbatim>\<open>findById\<close> result.
\<close>

definition generateAccessAndRefreshTokens_try ::
  "'db model \<Rightarrow> env \<Rightarrow> string \<Rightarrow> 'db state \<Rightarrow> (exn + string \<times> string) \<times> 'db state" where
  "generateAccessAndRefreshTokens_try U E userID s0 =
     (case User_findById U (JStr userID) s0 of
        (Inl e, s1) \<Rightarrow> (Inl e, s1)
      | (Inr None, s1) \<Rightarrow> (Inl (TypeError ''Cannot read properties of null''), s1)
      | (Inr (Some user), s1) \<Rightarrow>
          (case generateAccessToken E user of
             Inl e \<Rightarrow> (Inl e, s1)
           | Inr accessToken \<Rightarrow>
               (case generateRefreshToken E user of
                  Inl e \<Rightarrow> (Inl e, s1)
                | Inr refreshToken \<Rightarrow>
                    (case User_save U (assign RefreshToken (JStr refreshToken) user) s1 of
                       (Some e, s2) \<Rightarrow> (Inl e, s2)
                     | (None, s2) \<Rightarrow> (Inr (accessToken, refreshToken), s2)))))"

definition generateAccessAndRefreshTokens ::
  "'db model \<Rightarrow> env \<Rightarrow> string \<Rightarrow> 'db state \<Rightarrow> (exn + string \<times> string) \<times> 'db state" where
  "generateAccessAndRefreshTokens U E userID s0 =
     (case generateAccessAndRefreshTokens_try U E userID s0 of
        (Inl error, s1) \<Rightarrow>
          (Inl (ApiError 500 ''Error generating access and refresh tokens''), s1)
      | (Inr r, s1) \<Rightarrow> (Inr r, s1))"

text \<open>
  \<^verbatim>\<open>CreateUser\<close>. \<^verbatim>\<open>newUser._id\<close> is read before the test \<^verbatim>\<open>if (!newUser)\<close>, so a
  \<^verbatim>\<open>create\<close> that yields \<^verbatim>\<open>null\<close> throws a TypeError there and the test never fires.
\<close>

definition CreateUser_try ::
  "'db model \<Rightarrow> env \<Rightarrow> request \<Rightarrow> nat \<Rightarrow> 'db state \<Rightarrow> exn option \<times> 'db state" where
  "CreateUser_try U E req span s0 =
     (let userName = b_userName (req_body req);
          email = b_email (req_body req);
          password = b_password (req_body req);
          (validationSpan, s1) = startSpan ''validate_user_input'' (Some span) s0
      in
      if \<not> truthy userName \<or> \<not> truthy email \<or> \<not> truthy password then
        (Some (ApiError 400 ''Username, email, and password are required''),
         endSpan validationSpan s1)
      else
        (let s2 = endSpan validationSpan s1 in
         (case User_findOne U (Or [Eq UserName userName, Eq Email email]) s2 of
            (Inl e, s3) \<Rightarrow> (Some e, s3)
          | (Inr (Some existingUser), s3) \<Rightarrow>
              (Some (ApiError 400 ''User with the given username or email already exists''),
               s3)
          | (Inr None, s3) \<Rightarrow>
              (let (creationSpan, s4) = startSpan ''create_user_in_db'' (Some span) s3 in
               (case User_create U
                       [(UserName, userName), (Email, email), (Password, password),
                        (RegistrationDate, JDate (now E))] s4 of
                  (Inl e, s5) \<Rightarrow> (Some e, s5)
                | (Inr None, s5) \<Rightarrow>
                    (Some (TypeError ''Cannot read properties of null''), s5)
                | (Inr (Some newUser), s5) \<Rightarrow>
                    (let s6 = setAttribute creationSpan ''user.id''
                                (JStr (doc_id newUser)) s5;
                         s7 = endSpan creationSpan s6;
                         (retrievalSpan, s8) =
                           startSpan ''retrieve_created_user'' (Some span) s7
                     in
                     (case User_findById U (JStr (doc_id newUser)) s8 of
                        (Inl e, s9) \<Rightarrow> (Some e, s9)
                      | (Inr found, s9) \<Rightarrow>
                          (let s10 = endSpan retrievalSpan s9 in
                           (case map_option (select_excl [Password, Version]) found of
                              None \<Rightarrow>
                                (Some (ApiError 500 ''Failed to retrieve created user''),
                                 s10)
                            | Some createdUser \<Rightarrow>
                                (let s11 = setAttribute span ''user.id''
                                             (JStr (doc_id createdUser)) s10;
                                     s12 = endSpan span s11
                                 in
                                 (None,
                                  respond 201
                                    (ApiResponse 201 (PDoc createdUser)
                                       ''User created successfully'')
                                    s12)))))))))))"

definition CreateUser :: "'db model \<Rightarrow> env \<Rightarrow> request \<Rightarrow> 'db state \<Rightarrow> 'db state" where
  "CreateUser U E req s =
     (let (span, s0) = startSpan ''create_user_api'' None s in
      case CreateUser_try U E req span s0 of
        (None, s1) \<Rightarrow> endSpan span s1
      | (Some error, s1) \<Rightarrow>
          endSpan span
            (respond 400 (ErrorBody (message error)) (recordException span error s1)))"

text \<open>\<^verbatim>\<open>loginUser\<close>.\<close>

definition loginUser_try ::
  "'db model \<Rightarrow> env \<Rightarrow> request \<Rightarrow> nat \<Rightarrow> 'db state \<Rightarrow> exn option \<times> 'db state" where
  "loginUser_try U E req span s0 =
     (let (loginSpan, s1) = startSpan ''login_user_api'' (Some span) s0;
          email = b_email (req_body req);
          password = b_password (req_body req);
          s2 = setAttribute loginSpan ''user.email'' email s1;
          (validationSpan, s3) = startSpan ''validate_login_input'' (Some loginSpan) s2
      in
      if \<not> truthy email \<or> \<not> truthy password then
        (Some (ApiError 400 ''Email and password are required''), endSpan validationSpan s3)
      else
        (let s4 = endSpan validationSpan s3;
             (retrievalSpan, s5) = startSpan ''retrieve_user_for_login'' (Some loginSpan) s4
         in
         (case User_findOne U (Eq Email email) s5 of
            (Inl e, s6) \<Rightarrow> (Some e, s6)
          | (Inr found, s6) \<Rightarrow>
              (let s7 = endSpan retrievalSpan s6 in
               (case found of
                  None \<Rightarrow> (Some (ApiError 401 ''Invalid email or password''), s7)
                | Some user \<Rightarrow>
                    (let (passwordValidationSpan, s8) =
                           startSpan ''validate_user_password'' (Some loginSpan) s7
                     in
                     (case isPasswordCorrect E user password of
                        Inl e \<Rightarrow> (Some e, s8)
                      | Inr isPasswordValid \<Rightarrow>
                          (let s9 = setAttribute passwordValidationSpan ''password.valid''
                                      (JBool isPasswordValid) s8;
                               s10 = endSpan passwordValidationSpan s9
                           in
                           if \<not> isPasswordValid then
                             (Some (ApiError 401 ''Invalid email or password''), s10)
                           else
                             (let s11 = setAttribute loginSpan ''user.id''
                                          (JStr (doc_id user)) s10;
                                  (tokenSpan, s12) =
                                    startSpan ''generate_tokens_for_login''
                                      (Some loginSpan) s11
                              in
                              (case generateAccessAndRefreshTokens U E (doc_id user) s12 of
                                 (Inl e, s13) \<Rightarrow> (Some e, s13)
                               | (Inr (accessToken, refreshToken), s13) \<Rightarrow>
                                   (let s14 = endSpan tokenSpan s13;
                                        s15 = endSpan loginSpan s14
                                    in
                                    (None,
                                     respond 200
                                       (ApiResponse 200
                                          (PLogin accessToken user refreshToken)
                                          ''Login successful'')
                                       s15))))))))))))"

definition loginUser :: "'db model \<Rightarrow> env \<Rightarrow> request \<Rightarrow> 'db state \<Rightarrow> 'db state" where
  "loginUser U E req s =
     (let (span, s0) = startSpan ''login_user_api'' None s in
      case loginUser_try U E req span s0 of
        (None, s1) \<Rightarrow> endSpan span s1
      | (Some error, s1) \<Rightarrow>
          endSpan span
            (respond 400 (ErrorBody (message error)) (recordException span error s1)))"

text \<open>
  \<^verbatim>\<open>logoutUser\<close>. \<^verbatim>\<open>req.user._id\<close> throws a TypeError when no middleware has set
  \<^verbatim>\<open>req.user\<close>.
\<close>

definition logoutUser_try ::
  "'db model \<Rightarrow> env \<Rightarrow> request \<Rightarrow> nat \<Rightarrow> 'db state \<Rightarrow> exn option \<times> 'db state" where
  "logoutUser_try U E req span s0 =
     (let (logoutSpan, s1) = startSpan ''logout_user_api'' (Some span) s0 in
      (case req_user req of
         None \<Rightarrow> (Some (TypeError ''Cannot read properties of undefined''), s1)
       | Some caller \<Rightarrow>
           (let userId = doc_id caller;
                s2 = setAttribute logoutSpan ''user.id'' (JStr userId) s1;
                (retrievalSpan, s3) =
                  startSpan ''retrieve_user_for_logout'' (Some logoutSpan) s2
            in
            (case User_findById U (JStr userId) s3 of
               (Inl e, s4) \<Rightarrow> (Some e, s4)
             | (Inr found, s4) \<Rightarrow>
                 (let s5 = endSpan retrievalSpan s4 in
                  (case found of
                     None \<Rightarrow> (Some (ApiError 404 ''User not found''), s5)
                   | Some user \<Rightarrow>
                       (let (tokenClearSpan, s6) =
                              startSpan ''clear_refresh_token'' (Some logoutSpan) s5
                        in
                        (case User_save U (assign RefreshToken JNull user) s6 of
                           (Some e, s7) \<Rightarrow> (Some e, s7)
                         | (None, s7) \<Rightarrow>
                             (let s8 = endSpan tokenClearSpan s7;
                                  s9 = endSpan logoutSpan s8
                              in
                              (None,
                               respond 200 (ApiResponse 200 PNull ''Logout successful'')
                                 s9))))))))))"

definition logoutUser :: "'db model \<Rightarrow> env \<Rightarrow> request \<Rightarrow> 'db state \<Rightarrow> 'db state" where
  "logoutUser U E req s =
     (let (span, s0) = startSpan ''logout_user_api'' None s in
      case logoutUser_try U E req span s0 of
        (None, s1) \<Rightarrow> endSpan span s1
      | (Some error, s1) \<Rightarrow>
          endSpan span
            (respond 400 (ErrorBody (message error)) (recordException span error s1)))"

text \<open>
  \<^verbatim>\<open>UpdateUser\<close>. The update is \<^verbatim>\<open>findByIdAndUpdate(userId, {userName, email,
  lastUpdate: new Date()}, {new: true, ...}).select("-password -__v ")\<close>.
\<close>

definition UpdateUser_try ::
  "'db model \<Rightarrow> env \<Rightarrow> request \<Rightarrow> nat \<Rightarrow> 'db state \<Rightarrow> exn option \<times> 'db state" where
  "UpdateUser_try U E req span s0 =
     (let (updateSpan, s1) = startSpan ''update_user_api'' (Some span) s0 in
      (case req_user req of
         None \<Rightarrow> (Some (TypeError ''Cannot read properties of undefined''), s1)
       | Some caller \<Rightarrow>
           (let userId = doc_id caller;
                userName = b_userName (req_body req);
                email = b_email (req_body req);
                s2 = setAttribute updateSpan ''user.id'' (JStr userId) s1;
                (retrievalSpan, s3) =
                  startSpan ''retrieve_user_for_update'' (Some updateSpan) s2
            in
            (case User_findById U (JStr userId) s3 of
               (Inl e, s4) \<Rightarrow> (Some e, s4)
             | (Inr found, s4) \<Rightarrow>
                 (let s5 = endSpan retrievalSpan s4 in
                  (case found of
                     None \<Rightarrow> (Some (ApiError 404 ''User not found''), s5)
                   | Some user \<Rightarrow>
                       (let (validationSpan, s6) =
                              startSpan ''validate_update_input'' (Some updateSpan) s5
                        in
                        if \<not> truthy userName \<or> \<not> truthy email then
                          (Some (ApiError 400 ''Username and email are required''),
                           endSpan validationSpan s6)
                        else
                          (let s7 = endSpan validationSpan s6;
                               (updateDatabaseSpan, s8) =
                                 startSpan ''update_user_in_db'' (Some updateSpan) s7
                           in
                           (case User_findByIdAndUpdate U (JStr userId)
                                   [(UserName, userName), (Email, email),
                                    (LastUpdate, JDate (now E))] s8 of
                              (Inl e, s9) \<Rightarrow> (Some e, s9)
                            | (Inr updated, s9) \<Rightarrow>
                                (let s10 = setAttribute updateDatabaseSpan ''user.name''
                                             userName s9;
                                     s11 = setAttribute updateDatabaseSpan ''user.email''
                                             email s10;
                                     s12 = endSpan updateDatabaseSpan s11
                                 in
                                 (case map_option (select_excl [Password, Version]) updated of
                                    None \<Rightarrow> (Some (ApiError 500 ''Failed to update user''), s12)
                                  | Some updateUser \<Rightarrow>
                                      (let s13 = endSpan updateSpan s12 in
                                       (None,
                                        respond 200
                                          (ApiResponse 200 (PDoc updateUser)
                                             ''User updated successfully'')
                                          s13)))))))))))))"

definition UpdateUser :: "'db model \<Rightarrow> env \<Rightarrow> request \<Rightarrow> 'db state \<Rightarrow> 'db state" where
  "UpdateUser U E req s =
     (let (span, s0) = startSpan ''update_user_api'' None s in
      case UpdateUser_try U E req span s0 of
        (None, s1) \<Rightarrow> endSpan span s1
      | (Some error, s1) \<Rightarrow>
          endSpan span
            (respond 400 (ErrorBody (message error)) (recordException span error s1)))"

text \<open>\<^verbatim>\<open>deleteUser\<close>: a soft delete, \<^verbatim>\<open>isDeleted = true\<close> and \<^verbatim>\<open>deletedAt = new Date()\<close>.\<close>

definition deleteUser_try ::
  "'db model \<Rightarrow> env \<Rightarrow> request \<Rightarrow> nat \<Rightarrow> 'db state \<Rightarrow> exn option \<times> 'db state" where
  "deleteUser_try U E req span s0 =
     (let (deleteSpan, s1) = startSpan ''delete_user_api'' (Some span) s0 in
      (case req_user req of
         None \<Rightarrow> (Some (TypeError ''Cannot read properties of undefined''), s1)
       | Some caller \<Rightarrow>
           (let userId = doc_id caller;
                s2 = setAttribute deleteSpan ''user.id'' (JStr userId) s1;
                (retrievalSpan, s3) =
                  startSpan ''retrieve_user_for_deletion'' (Some deleteSpan) s2
            in
            (case User_findById U (JStr userId) s3 of
               (Inl e, s4) \<Rightarrow> (Some e, s4)
             | (Inr found, s4) \<Rightarrow>
                 (let s5 = endSpan retrievalSpan s4 in
                  (case found of
                     None \<Rightarrow> (Some (ApiError 404 ''User not found''), s5)
                   | Some user \<Rightarrow>
                       (let (deletionSpan, s6) =
                              startSpan ''mark_user_as_deleted'' (Some deleteSpan) s5
                        in
                        (case User_save U
                                (assign DeletedAt (JDate (now E))
                                   (assign IsDeleted (JBool True) user)) s6 of
                           (Some e, s7) \<Rightarrow> (Some e, s7)
                         | (None, s7) \<Rightarrow>
                             (let s8 = endSpan deletionSpan s7;
                                  s9 = endSpan deleteSpan s8
                              in
                              (None,
                               respond 200
                                 (ApiResponse 200 PNull ''User deleted successfully'')
                                 s9))))))))))"

definition deleteUser :: "'db model \<Rightarrow> env \<Rightarrow> request \<Rightarrow> 'db state \<Rightarrow> 'db state" where
  "deleteUser U E req s =
     (let (span, s0) = startSpan ''delete_user_api'' None s in
      case deleteUser_try U E req span s0 of
        (None, s1) \<Rightarrow> endSpan span s1
      | (Some error, s1) \<Rightarrow>
          endSpan span
            (respond 400 (ErrorBody (message error)) (recordException span error s1)))"

section \<open>The session middleware (auth.middleware.js)\<close>

text \<open>
  \<^verbatim>\<open>String.prototype.replace\<close> with a string pattern: the first occurrence only.
\<close>

fun replace_first :: "string \<Rightarrow> string \<Rightarrow> string \<Rightarrow> string" where
  "replace_first pat rep [] = (if pat = [] then rep else [])"
| "replace_first pat rep (c # cs) =
     (if take (length pat) (c # cs) = pat then rep @ drop (length pat) (c # cs)
      else c # replace_first pat rep cs)"

text \<open>
  \<^verbatim>\<open>req.cookies?.accessToken || req.header("Authorization")?.replace("Bearer ", "")\<close>
\<close>

definition request_token :: "request \<Rightarrow> jval" where
  "request_token req =
     (let cookieToken =
            (case req_cookies req of
               None \<Rightarrow> JUndefined
             | Some cs \<Rightarrow>
                 (case map_of cs ''accessToken'' of None \<Rightarrow> JUndefined | Some t \<Rightarrow> JStr t))
      in
      if truthy cookieToken then cookieToken
      else (case req_authorization req of
              None \<Rightarrow> JUndefined
            | Some h \<Rightarrow> JStr (replace_first ''Bearer '' [] h)))"

definition User_jwt_verify ::
  "env \<Rightarrow> string \<Rightarrow> 'db state \<Rightarrow> (exn + (string \<times> jval) list) \<times> 'db state" where
  "User_jwt_verify E t s =
     (jwt_verify E t (ACCESS_TOKEN_SECRET E), s\<lparr>calls := calls s @ [JwtVerify t]\<rparr>)"

text \<open>\<^verbatim>\<open>decodedToken?._id\<close>: \<^verbatim>\<open>undefined\<close> when the claims carry no id.\<close>

definition decoded_id :: "(string \<times> jval) list \<Rightarrow> jval" where
  "decoded_id decodedToken =
     (case map_of decodedToken ''_id'' of None \<Rightarrow> JUndefined | Some i \<Rightarrow> i)"

text \<open>
  The \<^verbatim>\<open>try\<close> block of \<^verbatim>\<open>verifyJWT\<close>. \<^verbatim>\<open>jwt.verify\<close> rejects a token that is
  not a string.
\<close>

definition verifyJWT_try ::
  "'db model \<Rightarrow> env \<Rightarrow> request \<Rightarrow> 'db state \<Rightarrow> (exn + request) \<times> 'db state" where
  "verifyJWT_try U E req s0 =
     (let token = request_token req in
      if \<not> truthy token then (Inl (ApiError 401 ''Unauthorized''), s0)
      else
        (case token of
           JStr t \<Rightarrow>
             (case User_jwt_verify E t s0 of
                (Inl e, s1) \<Rightarrow> (Inl e, s1)
              | (Inr decodedToken, s1) \<Rightarrow>
                  (case User_findById U (decoded_id decodedToken) s1 of
                     (Inl e, s2) \<Rightarrow> (Inl e, s2)
                   | (Inr found, s2) \<Rightarrow>
                       (case map_option (select_excl [Password, RefreshToken]) found of
                          None \<Rightarrow> (Inl (ApiError 401 ''Invalid access Token''), s2)
                        | Some user \<Rightarrow> (Inr (req\<lparr>req_user := Some user\<rparr>), s2))))
         | _ \<Rightarrow> (Inl (Error ''jwt must be a string''), s0)))"

text \<open>
  The \<^verbatim>\<open>catch\<close> of \<^verbatim>\<open>verifyJWT\<close>:
  \<^verbatim>\<open>throw new ApiError(401, error?.message || "Invalid Access Token")\<close>.
\<close>

definition verifyJWT ::
  "'db model \<Rightarrow> env \<Rightarrow> request \<Rightarrow> 'db state \<Rightarrow> (exn + request) \<times> 'db state" where
  "verifyJWT U E req s0 =
     (case verifyJWT_try U E req s0 of
        (Inl error, s1) \<Rightarrow>
          (Inl (ApiError 401
                  (if message error \<noteq> [] then message error else ''Invalid Access Token'')),
           s1)
      | (Inr req1, s1) \<Rightarrow> (Inr req1, s1))"

section \<open>The routes (user.router.js)\<close>

text \<open>
  A protected route runs \<^verbatim>\<open>verifyJWT\<close> and, when it calls \<^verbatim>\<open>next()\<close>, the controller
  on the request it has extended. What \<^verbatim>\<open>verifyJWT\<close> throws leaves the route.
\<close>

datatype route = Register | Login | Logout | Update string | Delete string

definition protected ::
  "'db model \<Rightarrow> env \<Rightarrow> ('db model \<Rightarrow> env \<Rightarrow> request \<Rightarrow> 'db state \<Rightarrow> 'db state)
     \<Rightarrow> request \<Rightarrow> 'db state \<Rightarrow> exn option \<times> 'db state" where
  "protected U E controller req s =
     (case verifyJWT U E req s of
        (Inl e, s1) \<Rightarrow> (Some e, s1)
      | (Inr req1, s1) \<Rightarrow> (None, controller U E req1 s1))"

fun router ::
  "'db model \<Rightarrow> env \<Rightarrow> route \<Rightarrow> request \<Rightarrow> 'db state \<Rightarrow> exn option \<times> 'db state" where
  "router U E Register req s = (None, CreateUser U E req s)"
| "router U E Login req s = (None, loginUser U E req s)"
| "router U E Logout req s = protected U E logoutUser req s"
| "router U E (Update i) req s =
     protected U E UpdateUser (req\<lparr>req_params_id := Some i\<rparr>) s"
| "router U E (Delete i) req s =
     protected U E deleteUser (req\<lparr>req_params_id := Some i\<rparr>) s"

section \<open>An in-memory user collection\<close>

text \<open>
  The \<^verbatim>\<open>User\<close> model over a list of documents, in insertion order: equality filters,
  the defaults and the unique indexes of \<^verbatim>\<open>userSchema\<close>, and its \<^verbatim>\<open>pre("save")\<close> hook.
  It is a collection of string-valued accounts: values are compared as they are and
  the required paths accept non-empty strings only (Mongoose would first cast a number
  or a boolean to the String type of the path), and any string is looked up as an id
  (Mongoose throws a CastError for a string that is not an ObjectId).
\<close>

fun matches :: "query \<Rightarrow> document \<Rightarrow> bool"
  and matches_any :: "query list \<Rightarrow> document \<Rightarrow> bool" where
  "matches (Eq f v) d = (get f d = v)"
| "matches (Or qs) d = matches_any qs d"
| "matches_any [] d = False"
| "matches_any (q # qs) d = (matches q d \<or> matches_any qs d)"

definition by_id :: "string \<Rightarrow> document list \<Rightarrow> document option" where
  "by_id i docs = find (\<lambda>d. doc_id d = i) docs"

definition replace_doc :: "document \<Rightarrow> document list \<Rightarrow> document list" where
  "replace_doc d docs = map (\<lambda>x. if doc_id x = doc_id d then d else x) docs"

text \<open>
  The hook of users.model.js: \<^verbatim>\<open>if (!this.isModified('password')) return next();
  this.password = await bcrypt.hash(this.password, 10)\<close>.
\<close>

definition pre_save :: "env \<Rightarrow> field list \<Rightarrow> document \<Rightarrow> exn + document" where
  "pre_save E modified this =
     (if Password \<notin> set modified then Inr this
      else (case get Password this of
              JStr p \<Rightarrow> Inr (assign Password (JStr (bcrypt_hash E p)) this)
            | _ \<Rightarrow> Inl (Error ''Illegal arguments'')))"

definition required_ok :: "field list \<Rightarrow> document \<Rightarrow> bool" where
  "required_ok fs d = list_all (\<lambda>f. case get f d of JStr v \<Rightarrow> v \<noteq> [] | _ \<Rightarrow> False) fs"

text \<open>The unique indexes on \<^verbatim>\<open>userName\<close> and \<^verbatim>\<open>email\<close>, against the other documents.\<close>

definition duplicate_key :: "document \<Rightarrow> document list \<Rightarrow> bool" where
  "duplicate_key d docs =
     list_ex (\<lambda>x. doc_id x \<noteq> doc_id d \<and>
                  (get UserName x = get UserName d \<or> get Email x = get Email d)) docs"

definition mem_findOne :: "query \<Rightarrow> document list \<Rightarrow> exn + document option" where
  "mem_findOne q docs = Inr (find (matches q) docs)"

definition mem_findById :: "jval \<Rightarrow> document list \<Rightarrow> exn + document option" where
  "mem_findById i docs =
     (case i of
        JStr x \<Rightarrow> Inr (by_id x docs)
      | JUndefined \<Rightarrow> Inr None
      | JNull \<Rightarrow> Inr None
      | _ \<Rightarrow> Inl (Error ''Cast to ObjectId failed''))"

definition mem_create ::
  "env \<Rightarrow> (field \<times> jval) list \<Rightarrow> document list \<Rightarrow> (exn + document option) \<times> document list"
  where
  "mem_create E fs docs =
     (let fresh =
            \<lparr>doc_id = new_ObjectId E (length docs),
             doc_fields =
               fold (\<lambda>p. assign_list (fst p) (snd p)) fs
                 [(LastUpdate, JDate (now E)), (RegistrationDate, JDate (now E)),
                  (DeletedAt, JNull), (IsDeleted, JBool False), (RefreshToken, JNull),
                  (CreatedAt, JDate (now E)), (UpdatedAt, JDate (now E)),
                  (Version, JNum 0)]\<rparr>
      in
      if \<not> required_ok [UserName, Email, Password] fresh then
        (Inl (Error ''User validation failed''), docs)
      else
        (case pre_save E (map fst fs) fresh of
           Inl e \<Rightarrow> (Inl e, docs)
         | Inr d \<Rightarrow>
             if duplicate_key d docs then (Inl (Error ''E11000 duplicate key error''), docs)
             else (Inr (Some d), docs @ [d])))"

text \<open>
  \<^verbatim>\<open>doc.save({ validateBeforeSave: false })\<close>: the modified paths are those whose
  value differs from the stored document's.
\<close>

definition mem_save :: "env \<Rightarrow> document \<Rightarrow> document list \<Rightarrow> exn option \<times> document list" where
  "mem_save E d docs =
     (case by_id (doc_id d) docs of
        None \<Rightarrow> (Some (Error ''No document found''), docs)
      | Some stored \<Rightarrow>
          (case pre_save E
                  (map fst (filter (\<lambda>p. get (fst p) stored \<noteq> snd p) (doc_fields d))) d of
             Inl e \<Rightarrow> (Some e, docs)
           | Inr d1 \<Rightarrow>
               (let d2 = assign UpdatedAt (JDate (now E)) d1 in
                if duplicate_key d2 docs then
                  (Some (Error ''E11000 duplicate key error''), docs)
                else (None, replace_doc d2 docs))))"

text \<open>
  \<^verbatim>\<open>findByIdAndUpdate(id, update, { new: true, runValidators: true })\<close>: no save hook
  runs; the updated document is returned.
\<close>

definition mem_findByIdAndUpdate ::
  "env \<Rightarrow> jval \<Rightarrow> (field \<times> jval) list \<Rightarrow> document list
     \<Rightarrow> (exn + document option) \<times> document list" where
  "mem_findByIdAndUpdate E i fs docs =
     (case mem_findById i docs of
        Inl e \<Rightarrow> (Inl e, docs)
      | Inr None \<Rightarrow> (Inr None, docs)
      | Inr (Some stored) \<Rightarrow>
          (let d = assign UpdatedAt (JDate (now E))
                     (stored\<lparr>doc_fields :=
                        fold (\<lambda>p. assign_list (fst p) (snd p)) fs (doc_fields stored)\<rparr>)
           in
           if \<not> required_ok (filter (\<lambda>f. f \<in> set (map fst fs)) [UserName, Email]) d then
             (Inl (Error ''Validation failed''), docs)
           else if duplicate_key d docs then
             (Inl (Error ''E11000 duplicate key error''), docs)
           else (Inr (Some d), replace_doc d docs)))"

definition mem_User :: "env \<Rightarrow> document list model" where
  "mem_User E =
     \<lparr>findOne = mem_findOne, findById = mem_findById, create = mem_create E,
      save = mem_save E, findByIdAndUpdate = mem_findByIdAndUpdate E\<rparr>"

section \<open>A test environment\<close>

text \<open>
  Stand-ins for the libraries, for running the controllers on concrete requests: a
  hash that prefixes \<^verbatim>\<open>#\<close>, tokens of the form \<^verbatim>\<open>secret.id\<close>, a clock that reads 1000.
\<close>

definition toy_sign :: "(string \<times> jval) list \<Rightarrow> jval \<Rightarrow> jval \<Rightarrow> exn + string" where
  "toy_sign claims secret expiry =
     (case secret of
        JStr k \<Rightarrow>
          (if k = [] then Inl (Error ''secretOrPrivateKey must have a value'')
           else (case map_of claims ''_id'' of
                   Some (JStr i) \<Rightarrow> Inr (k @ ''.'' @ i)
                 | _ \<Rightarrow> Inr (k @ ''.'')))
      | _ \<Rightarrow> Inl (Error ''secretOrPrivateKey must have a value''))"

definition toy_verify :: "string \<Rightarrow> jval \<Rightarrow> exn + (string \<times> jval) list" where
  "toy_verify t secret =
     (case secret of
        JStr k \<Rightarrow>
          (if k \<noteq> [] \<and> take (Suc (length k)) t = k @ ''.''
           then Inr [(''_id'', JStr (drop (Suc (length k)) t))]
           else Inl (Error ''invalid signature''))
      | _ \<Rightarrow> Inl (Error ''secret or public key must be provided''))"

definition test_env :: env where
  "test_env =
     \<lparr>now = 1000,
      new_ObjectId = (\<lambda>n. ''u'' @ replicate n (CHR ''i'')),
      bcrypt_hash = (\<lambda>p. ''#'' @ p),
      bcrypt_compare = (\<lambda>p h. h = ''#'' @ p),
      jwt_sign = toy_sign,
      jwt_verify = toy_verify,
      ACCESS_TOKEN_SECRET = JStr ''A'',
      ACCESS_TOKEN_EXPIRY = JStr ''1d'',
      REFRESH_TOKEN_SECRET = JStr ''R'',
      REFRESH_TOKEN_EXPIRY = JStr ''10d''\<rparr>"

definition init :: "'db \<Rightarrow> 'db state" where
  "init d = \<lparr>tracer = [], db = d, res = None, calls = []\<rparr>"

definition request_with :: "jval \<Rightarrow> jval \<Rightarrow> jval \<Rightarrow> request" where
  "request_with u e p =
     \<lparr>req_cookies = None, req_authorization = None,
      req_body = \<lparr>b_userName = u, b_email = e, b_password = p\<rparr>,
      req_user = None, req_params_id = None\<rparr>"

text \<open>A request that carries its token in the \<^verbatim>\<open>Authorization\<close> header.\<close>

definition bearer_request :: "string \<Rightarrow> jval \<Rightarrow> jval \<Rightarrow> request" where
  "bearer_request h u e = (request_with u e JUndefined)\<lparr>req_authorization := Some h\<rparr>"

text \<open>The stored account of alice, as \<^verbatim>\<open>CreateUser\<close> leaves it in an empty collection.\<close>

definition alice :: document where
  "alice =
     \<lparr>doc_id = ''u'',
      doc_fields =
        [(LastUpdate, JDate 1000), (RegistrationDate, JDate 1000), (DeletedAt, JNull),
         (IsDeleted, JBool False), (RefreshToken, JNull), (CreatedAt, JDate 1000),
         (UpdatedAt, JDate 1000), (Version, JNum 0), (UserName, JStr ''alice''),
         (Email, JStr ''a@x.com''), (Password, JStr ''#secret1'')]\<rparr>"

text \<open>
  A collection that acknowledges an insert and does not keep it: the account is gone
  when \<^verbatim>\<open>CreateUser\<close> reads it back.
\<close>

definition forgetful_User :: "env \<Rightarrow> document list model" where
  "forgetful_User E = (mem_User E)\<lparr>create := (\<lambda>fs docs. (fst (mem_create E fs docs), docs))\<rparr>"

text \<open>The account of alice after a soft delete.\<close>

definition deleted_alice :: document where
  "deleted_alice = assign DeletedAt (JDate 1000) (assign IsDeleted (JBool True) alice)"

text \<open>A second account, of bob.\<close>

definition bob :: document where
  "bob =
     \<lparr>doc_id = ''v'',
      doc_fields =
        [(LastUpdate, JDate 1000), (RegistrationDate, JDate 1000), (DeletedAt, JNull),
         (IsDeleted, JBool False), (RefreshToken, JNull), (CreatedAt, JDate 1000),
         (UpdatedAt, JDate 1000), (Version, JNum 0), (UserName, JStr ''bob''),
         (Email, JStr ''b@x.com''), (Password, JStr ''#secret2'')]\<rparr>"

section \<open>Observations\<close>

text \<open>
  The number of \<^verbatim>\<open>end()\<close> calls received by each span started between two states, in
  the order the spans were started.
\<close>

definition ends_since :: "'db state \<Rightarrow> 'db state \<Rightarrow> nat list" where
  "ends_since s s' = drop (length (tracer s)) (map ends (tracer s'))"

fun bump :: "nat \<Rightarrow> nat list \<Rightarrow> nat list" where
  "bump k [] = []"
| "bump 0 (x # xs) = Suc x # xs"
| "bump (Suc k) (x # xs) = x # bump k xs"

text \<open>The collaborator calls made between two states.\<close>

definition calls_since :: "'db state \<Rightarrow> 'db state \<Rightarrow> call list" where
  "calls_since s s' = drop (length (calls s)) (calls s')"

text \<open>The account object carried by the response, if there is one.\<close>

definition response_doc :: "'db state \<Rightarrow> document option" where
  "response_doc s =
     (case res s of
        None \<Rightarrow> None
      | Some r \<Rightarrow>
          (case json r of
             ApiResponse c (PDoc d) m \<Rightarrow> Some d
           | ApiResponse c (PLogin a d t) m \<Rightarrow> Some d
           | _ \<Rightarrow> None))"

text \<open>
  A call is addressed to the account with id \<open>i\<close>: a read or an update by that id, or
  the save of a document that has the id of the document read by that id.
\<close>

definition acts_on :: "'db model \<Rightarrow> 'db \<Rightarrow> jval \<Rightarrow> call \<Rightarrow> bool" where
  "acts_on U d i c =
     (case c of
        FindById j \<Rightarrow> j = i
      | FindByIdAndUpdate j fs \<Rightarrow> j = i
      | Save doc \<Rightarrow>
          (case findById U i d of
             Inr (Some stored) \<Rightarrow> doc_id doc = doc_id stored
           | _ \<Rightarrow> False)
      | _ \<Rightarrow> False)"

section \<open>Basic facts\<close>

lemma on_span_proj [simp]:
  "db (on_span h f s) = db s" "res (on_span h f s) = res s" "calls (on_span h f s) = calls s"
  "length (tracer (on_span h f s)) = length (tracer s)"
  by (simp_all add: on_span_def)

lemma endSpan_proj [simp]:
  "db (endSpan h s) = db s" "res (endSpan h s) = res s" "calls (endSpan h s) = calls s"
  "length (tracer (endSpan h s)) = length (tracer s)"
  by (simp_all add: endSpan_def)

lemma setAttribute_proj [simp]:
  "db (setAttribute h k v s) = db s" "res (setAttribute h k v s) = res s"
  "calls (setAttribute h k v s) = calls s"
  "length (tracer (setAttribute h k v s)) = length (tracer s)"
  by (simp_all add: setAttribute_def)

lemma recordException_proj [simp]:
  "db (recordException h e s) = db s" "res (recordException h e s) = res s"
  "calls (recordException h e s) = calls s"
  "length (tracer (recordException h e s)) = length (tracer s)"
  by (simp_all add: recordException_def)

lemma startSpan_proj [simp]:
  "fst (startSpan n p s) = length (tracer s)"
  "db (snd (startSpan n p s)) = db s" "res (snd (startSpan n p s)) = res s"
  "calls (snd (startSpan n p s)) = calls s"
  "length (tracer (snd (startSpan n p s))) = Suc (length (tracer s))"
  by (simp_all add: startSpan_def)

lemma respond_proj [simp]:
  "db (respond c b s) = db s" "res (respond c b s) = Some \<lparr>status = c, json = b\<rparr>"
  "calls (respond c b s) = calls s" "tracer (respond c b s) = tracer s"
  by (simp_all add: respond_def)

lemmas call_defs =
  User_findOne_def User_findById_def User_create_def User_save_def
  User_findByIdAndUpdate_def User_jwt_verify_def

lemmas try_simps = Let_def case_prod_beta call_defs

text \<open>End counts: a step of the tracer is a step on the list of counts.\<close>

lemma bump_update: "bump k xs = (if k < length xs then xs[k := Suc (xs ! k)] else xs)"
  by (induction k xs rule: bump.induct) auto

lemma bump_snoc [simp]:
  "bump k (xs @ [x]) =
     (if k < length xs then bump k xs @ [x]
      else if k = length xs then xs @ [Suc x] else xs @ [x])"
  by (induction k xs rule: bump.induct) (auto simp: bump_update)

lemma map_ends_on_span:
  "(\<And>sp. ends (f sp) = ends sp) \<Longrightarrow> map ends (tracer (on_span h f s)) = map ends (tracer s)"
  by (simp add: on_span_def map_update list_update_same_conv)

lemma ends_since_same [simp]: "ends_since s s = []"
  by (simp add: ends_since_def)

lemma ends_since_setAttribute [simp]:
  "ends_since s (setAttribute h k v s') = ends_since s s'"
  by (simp add: ends_since_def setAttribute_def map_ends_on_span)

lemma ends_since_recordException [simp]:
  "ends_since s (recordException h e s') = ends_since s s'"
  by (simp add: ends_since_def recordException_def map_ends_on_span)

lemma ends_since_respond [simp]: "ends_since s (respond c b s') = ends_since s s'"
  by (simp add: ends_since_def)

lemma ends_since_frame [simp]:
  "ends_since s (s'\<lparr>calls := c\<rparr>) = ends_since s s'"
  "ends_since s (s'\<lparr>db := d\<rparr>) = ends_since s s'"
  by (simp_all add: ends_since_def)

lemma ends_since_startSpan [simp]:
  "length (tracer s) \<le> length (tracer s') \<Longrightarrow>
   ends_since s (snd (startSpan n p s')) = ends_since s s' @ [0]"
  by (simp add: ends_since_def startSpan_def)

lemma length_ends_since [simp]:
  "length (ends_since s s') = length (tracer s') - length (tracer s)"
  by (simp add: ends_since_def)

lemma ends_since_endSpan:
  "ends_since s (endSpan (length (tracer s) + k) s') = bump k (ends_since s s')"
  by (simp add: ends_since_def endSpan_def on_span_def bump_update map_update
      drop_update_swap nth_append)

lemma ends_since_endSpan_Suc [simp]:
  "ends_since s (endSpan (length (tracer s)) s') = bump 0 (ends_since s s')"
  "ends_since s (endSpan (Suc (length (tracer s))) s') = bump 1 (ends_since s s')"
  "ends_since s (endSpan (Suc (Suc (length (tracer s)))) s') = bump 2 (ends_since s s')"
  "ends_since s (endSpan (Suc (Suc (Suc (length (tracer s))))) s') =
     bump 3 (ends_since s s')"
  "ends_since s (endSpan (Suc (Suc (Suc (Suc (length (tracer s)))))) s') =
     bump 4 (ends_since s s')"
  "ends_since s (endSpan (Suc (Suc (Suc (Suc (Suc (length (tracer s))))))) s') =
     bump 5 (ends_since s s')"
  using ends_since_endSpan [of s 0 s'] ends_since_endSpan [of s 1 s']
    ends_since_endSpan [of s 2 s'] ends_since_endSpan [of s 3 s']
    ends_since_endSpan [of s 4 s'] ends_since_endSpan [of s 5 s']
  by (simp_all add: numeral_eq_Suc)

text \<open>Projections never show an excluded path.\<close>

lemma select_excl_hides: "f \<in> set fs \<Longrightarrow> \<not> has_field f (select_excl fs d)"
  by (auto simp: has_field_def select_excl_def)

lemma select_excl_id [simp]: "doc_id (select_excl fs d) = doc_id d"
  by (simp add: select_excl_def)

lemma assign_id [simp]: "doc_id (assign k v d) = doc_id d"
  by (simp add: assign_def)

text \<open>The in-memory collection on the accounts used below.\<close>

lemma mem_User_ops [simp]:
  "findOne (mem_User E) = mem_findOne" "findById (mem_User E) = mem_findById"
  "create (mem_User E) = mem_create E" "save (mem_User E) = mem_save E"
  "findByIdAndUpdate (mem_User E) = mem_findByIdAndUpdate E"
  by (simp_all add: mem_User_def)

lemma forgetful_User_ops [simp]:
  "findOne (forgetful_User E) = mem_findOne" "findById (forgetful_User E) = mem_findById"
  "create (forgetful_User E) = (\<lambda>fs docs. (fst (mem_create E fs docs), docs))"
  by (simp_all add: forgetful_User_def mem_User_def)

lemma test_env_simps [simp]:
  "now test_env = 1000" "bcrypt_hash test_env p = ''#'' @ p"
  "bcrypt_compare test_env p h = (h = ''#'' @ p)"
  "new_ObjectId test_env n = ''u'' @ replicate n (CHR ''i'')"
  "jwt_sign test_env = toy_sign" "jwt_verify test_env = toy_verify"
  "ACCESS_TOKEN_SECRET test_env = JStr ''A''" "ACCESS_TOKEN_EXPIRY test_env = JStr ''1d''"
  "REFRESH_TOKEN_SECRET test_env = JStr ''R''" "REFRESH_TOKEN_EXPIRY test_env = JStr ''10d''"
  by (simp_all add: test_env_def)

lemma request_with_simps [simp]:
  "b_userName (req_body (request_with u e p)) = u"
  "b_email (req_body (request_with u e p)) = e"
  "b_password (req_body (request_with u e p)) = p"
  "req_user (request_with u e p) = None"
  "req_cookies (request_with u e p) = None"
  "req_authorization (request_with u e p) = None"
  by (simp_all add: request_with_def)

lemma init_simps [simp]:
  "db (init d) = d" "res (init d) = None" "calls (init d) = []" "tracer (init d) = []"
  by (simp_all add: init_def)

lemma alice_simps [simp]:
  "doc_id alice = ''u''" "get Email alice = JStr ''a@x.com''"
  "get UserName alice = JStr ''alice''" "get Password alice = JStr ''#secret1''"
  "get RefreshToken alice = JNull" "get IsDeleted alice = JBool False"
  by (simp_all add: alice_def get_def)

lemma deleted_alice_simps [simp]:
  "doc_id deleted_alice = ''u''" "get Email deleted_alice = JStr ''a@x.com''"
  "get UserName deleted_alice = JStr ''alice''"
  "get Password deleted_alice = JStr ''#secret1''"
  "get RefreshToken deleted_alice = JNull" "get IsDeleted deleted_alice = JBool True"
  by (simp_all add: deleted_alice_def alice_def get_def assign_def)

lemma mem_create_alice:
  "mem_create test_env
     [(UserName, JStr ''alice''), (Email, JStr ''a@x.com''), (Password, JStr ''secret1''),
      (RegistrationDate, JDate 1000)] [] = (Inr (Some alice), [alice])"
  by (simp add: mem_create_def required_ok_def pre_save_def duplicate_key_def get_def
      assign_def alice_def)

lemma mem_findById_one [simp]: "mem_findById (JStr (doc_id d)) [d] = Inr (Some d)"
  by (simp add: mem_findById_def by_id_def)

lemma mem_findById_alice [simp]:
  "mem_findById (JStr ''u'') [alice] = Inr (Some alice)"
  "mem_findById (JStr ''u'') [deleted_alice] = Inr (Some deleted_alice)"
  using mem_findById_one [of alice] mem_findById_one [of deleted_alice] by simp_all

lemma mem_findById_empty [simp]: "mem_findById (JStr i) [] = Inr None"
  by (simp add: mem_findById_def by_id_def)

lemma mem_findOne_empty [simp]: "mem_findOne q [] = Inr None"
  by (simp add: mem_findOne_def)

lemma mem_findOne_email:
  "get Email d = e \<Longrightarrow> mem_findOne (Eq Email e) [d] = Inr (Some d)"
  "get Email d \<noteq> e \<Longrightarrow> mem_findOne (Eq Email e) [d] = Inr None"
  by (simp_all add: mem_findOne_def)

section \<open>Span closure\<close>

lemma CreateUser_created_ends:
  assumes "truthy (b_userName (req_body req))" "truthy (b_email (req_body req))"
    "truthy (b_password (req_body req))"
    and "findOne U (Or [Eq UserName (b_userName (req_body req)),
                        Eq Email (b_email (req_body req))]) (db s) = Inr None"
    and "create U [(UserName, b_userName (req_body req)), (Email, b_email (req_body req)),
                   (Password, b_password (req_body req)), (RegistrationDate, JDate (now E))]
           (db s) = (Inr (Some newUser), d1)"
    and "findById U (JStr (doc_id newUser)) d1 = Inr (Some found)"
  shows "ends_since s (CreateUser U E req s) = [2, 1, 1, 1]"
  using assms
  by (simp add: CreateUser_def CreateUser_try_def try_simps numeral_eq_Suc)

lemma loginUser_invalid_ends:
  assumes "\<not> truthy (b_email (req_body req)) \<or> \<not> truthy (b_password (req_body req))"
  shows "ends_since s (loginUser U E req s) = [1, 0, 1]"
  using assms
  by (simp add: loginUser_def loginUser_try_def try_simps numeral_eq_Suc)

lemma logoutUser_missing_ends:
  assumes "req_user req = Some caller"
    and "findById U (JStr (doc_id caller)) (db s) = Inr None"
  shows "ends_since s (logoutUser U E req s) = [1, 0, 1]"
  using assms
  by (simp add: logoutUser_def logoutUser_try_def try_simps numeral_eq_Suc)

lemma UpdateUser_missing_ends:
  assumes "req_user req = Some caller"
    and "findById U (JStr (doc_id caller)) (db s) = Inr None"
  shows "ends_since s (UpdateUser U E req s) = [1, 0, 1]"
  using assms
  by (simp add: UpdateUser_def UpdateUser_try_def try_simps numeral_eq_Suc)

lemma deleteUser_missing_ends:
  assumes "req_user req = Some caller"
    and "findById U (JStr (doc_id caller)) (db s) = Inr None"
  shows "ends_since s (deleteUser U E req s) = [1, 0, 1]"
  using assms
  by (simp add: deleteUser_def deleteUser_try_def try_simps numeral_eq_Suc)

text \<open>
  C1. The claim: in every account operation and on every exit path each span started
  is ended exactly once. The code does otherwise: on the successful path of
  \<^verbatim>\<open>CreateUser\<close> the top-level span is ended twice (before the response and again in
  \<^verbatim>\<open>finally\<close>), and on a failing path of \<^verbatim>\<open>loginUser\<close>, \<^verbatim>\<open>logoutUser\<close>,
  \<^verbatim>\<open>UpdateUser\<close> and \<^verbatim>\<open>deleteUser\<close> the second span of the operation is never ended.
  The lists give the end counts of the spans of the request, in starting order.
\<close>

theorem C1_span_closure_broken:
  "(truthy (b_userName (req_body req)) \<and> truthy (b_email (req_body req)) \<and>
    truthy (b_password (req_body req)) \<and>
    findOne U (Or [Eq UserName (b_userName (req_body req)),
                   Eq Email (b_email (req_body req))]) (db s) = Inr None \<and>
    create U [(UserName, b_userName (req_body req)), (Email, b_email (req_body req)),
              (Password, b_password (req_body req)), (RegistrationDate, JDate (now E))]
      (db s) = (Inr (Some newUser), d1) \<and>
    findById U (JStr (doc_id newUser)) d1 = Inr (Some found)
    \<longrightarrow> ends_since s (CreateUser U E req s) = [2, 1, 1, 1]) \<and>
   (\<not> truthy (b_email (req_body req)) \<or> \<not> truthy (b_password (req_body req))
    \<longrightarrow> ends_since s (loginUser U E req s) = [1, 0, 1]) \<and>
   (req_user req = Some caller \<and> findById U (JStr (doc_id caller)) (db s) = Inr None
    \<longrightarrow> ends_since s (logoutUser U E req s) = [1, 0, 1] \<and>
        ends_since s (UpdateUser U E req s) = [1, 0, 1] \<and>
        ends_since s (deleteUser U E req s) = [1, 0, 1])"
  using CreateUser_created_ends [of req U s E newUser d1 found]
    loginUser_invalid_ends [of req s U E]
    logoutUser_missing_ends [of req caller U s E]
    UpdateUser_missing_ends [of req caller U s E]
    deleteUser_missing_ends [of req caller U s E]
  by blast

theorem C1_span_closure_broken_witness:
  "ends_since (init [])
     (CreateUser (mem_User test_env) test_env
        (request_with (JStr ''alice'') (JStr ''a@x.com'') (JStr ''secret1'')) (init []))
     = [2, 1, 1, 1] \<and>
   ends_since (init [alice])
     (loginUser (mem_User test_env) test_env
        (request_with JUndefined (JStr ''a@x.com'') JUndefined) (init [alice]))
     = [1, 0, 1]"
  using C1_span_closure_broken
      [of "request_with (JStr ''alice'') (JStr ''a@x.com'') (JStr ''secret1'')"
          "mem_User test_env" "init []" test_env alice "[alice]" alice]
    C1_span_closure_broken
      [of "request_with JUndefined (JStr ''a@x.com'') JUndefined"
          "mem_User test_env" "init [alice]" test_env]
  by (simp add: mem_create_alice)

section \<open>Failure responses\<close>

text \<open>
  Every controller answers what it catches with
  \<^verbatim>\<open>res.status(400).json({ error: error.message })\<close>: the status code carried by the
  \<^verbatim>\<open>ApiError\<close> is not read.
\<close>

lemma loginUser_unknown_email:
  assumes "truthy (b_email (req_body req))" "truthy (b_password (req_body req))"
    and "findOne U (Eq Email (b_email (req_body req))) (db s) = Inr None"
  shows "fst (loginUser_try U E req sp s) = Some (ApiError 401 ''Invalid email or password'')"
    and "res (loginUser U E req s) =
           Some \<lparr>status = 400, json = ErrorBody ''Invalid email or password''\<rparr>"
  using assms
  by (simp_all add: loginUser_def loginUser_try_def try_simps)

lemma loginUser_wrong_password:
  assumes "truthy (b_email (req_body req))" "truthy (b_password (req_body req))"
    and "findOne U (Eq Email (b_email (req_body req))) (db s) = Inr (Some user)"
    and "isPasswordCorrect E user (b_password (req_body req)) = Inr False"
  shows "fst (loginUser_try U E req sp s) = Some (ApiError 401 ''Invalid email or password'')"
    and "res (loginUser U E req s) =
           Some \<lparr>status = 400, json = ErrorBody ''Invalid email or password''\<rparr>"
  using assms
  by (simp_all add: loginUser_def loginUser_try_def try_simps)

text \<open>
  C2. The claim: a login whose email matches no account, or whose password does not
  verify, is answered with status 401, the same in both cases and without account data.
  In the code both cases throw \<^verbatim>\<open>ApiError(401, "Invalid email or password")\<close>, the
  response is the same and carries no account, but its status is 400.
\<close>

theorem C2_invalid_credentials_answer:
  assumes "truthy (b_email (req_body req))" and "truthy (b_password (req_body req))"
    and "findOne U (Eq Email (b_email (req_body req))) (db s) = Inr None \<or>
         (\<exists>user. findOne U (Eq Email (b_email (req_body req))) (db s) = Inr (Some user) \<and>
                 isPasswordCorrect E user (b_password (req_body req)) = Inr False)"
  shows "fst (loginUser_try U E req sp s) = Some (ApiError 401 ''Invalid email or password'') \<and>
         res (loginUser U E req s) =
           Some \<lparr>status = 400, json = ErrorBody ''Invalid email or password''\<rparr> \<and>
         response_doc (loginUser U E req s) = None"
proof -
  have "fst (loginUser_try U E req sp s) = Some (ApiError 401 ''Invalid email or password'')"
    using assms loginUser_unknown_email(1) loginUser_wrong_password(1) by blast
  moreover have r: "res (loginUser U E req s) =
      Some \<lparr>status = 400, json = ErrorBody ''Invalid email or password''\<rparr>"
    using assms loginUser_unknown_email(2) loginUser_wrong_password(2) by blast
  moreover have "response_doc (loginUser U E req s) = None"
    by (simp add: response_doc_def r)
  ultimately show ?thesis by blast
qed

lemma isPasswordCorrect_alice [simp]:
  "isPasswordCorrect test_env alice (JStr p) = Inr (p = ''secret1'')"
  "isPasswordCorrect test_env deleted_alice (JStr p) = Inr (p = ''secret1'')"
  by (auto simp: isPasswordCorrect_def)

theorem C2_invalid_credentials_answer_witness:
  "res (loginUser (mem_User test_env) test_env
          (request_with JUndefined (JStr ''b@x.com'') (JStr ''secret1'')) (init [alice])) =
     Some \<lparr>status = 400, json = ErrorBody ''Invalid email or password''\<rparr> \<and>
   res (loginUser (mem_User test_env) test_env
          (request_with JUndefined (JStr ''a@x.com'') (JStr ''wrong'')) (init [alice])) =
     Some \<lparr>status = 400, json = ErrorBody ''Invalid email or password''\<rparr>"
  using C2_invalid_credentials_answer
      [of "request_with JUndefined (JStr ''b@x.com'') (JStr ''secret1'')"
          "mem_User test_env" "init [alice]" test_env]
    C2_invalid_credentials_answer
      [of "request_with JUndefined (JStr ''a@x.com'') (JStr ''wrong'')"
          "mem_User test_env" "init [alice]" test_env]
  by (simp add: mem_findOne_email)

text \<open>
  C3. The claim: when a create request has passed validation and the duplicate check
  and the re-fetch of the new account returns nothing, the response status is 500.
  The code throws \<^verbatim>\<open>ApiError(500, "Failed to retrieve created user")\<close> and answers it
  with status 400.
\<close>

theorem C3_refetch_empty_answer:
  assumes "truthy (b_userName (req_body req))" and "truthy (b_email (req_body req))"
    and "truthy (b_password (req_body req))"
    and "findOne U (Or [Eq UserName (b_userName (req_body req)),
                        Eq Email (b_email (req_body req))]) (db s) = Inr None"
    and "create U [(UserName, b_userName (req_body req)), (Email, b_email (req_body req)),
                   (Password, b_password (req_body req)), (RegistrationDate, JDate (now E))]
           (db s) = (Inr (Some newUser), d1)"
    and "findById U (JStr (doc_id newUser)) d1 = Inr None"
  shows "fst (CreateUser_try U E req sp s) =
           Some (ApiError 500 ''Failed to retrieve created user'') \<and>
         res (CreateUser U E req s) =
           Some \<lparr>status = 400, json = ErrorBody ''Failed to retrieve created user''\<rparr>"
  using assms
  by (simp add: CreateUser_def CreateUser_try_def try_simps)

theorem C3_refetch_empty_answer_witness:
  "res (CreateUser (forgetful_User test_env) test_env
          (request_with (JStr ''alice'') (JStr ''a@x.com'') (JStr ''secret1'')) (init [])) =
     Some \<lparr>status = 400, json = ErrorBody ''Failed to retrieve created user''\<rparr>"
  using C3_refetch_empty_answer
      [of "request_with (JStr ''alice'') (JStr ''a@x.com'') (JStr ''secret1'')"
          "forgetful_User test_env" "init []" test_env alice "[]"]
  by (simp add: mem_create_alice)

text \<open>
  C5. The claim: when the caller's account no longer exists at the fetch step of
  logout, update or delete, the response status is 404. The code throws
  \<^verbatim>\<open>ApiError(404, "User not found")\<close> and answers it with status 400.
\<close>

theorem C5_account_vanished_answer:
  assumes "req_user req = Some caller"
    and "findById U (JStr (doc_id caller)) (db s) = Inr None"
  shows "fst (logoutUser_try U E req sp s) = Some (ApiError 404 ''User not found'') \<and>
         fst (UpdateUser_try U E req sp s) = Some (ApiError 404 ''User not found'') \<and>
         fst (deleteUser_try U E req sp s) = Some (ApiError 404 ''User not found'') \<and>
         res (logoutUser U E req s) =
           Some \<lparr>status = 400, json = ErrorBody ''User not found''\<rparr> \<and>
         res (UpdateUser U E req s) =
           Some \<lparr>status = 400, json = ErrorBody ''User not found''\<rparr> \<and>
         res (deleteUser U E req s) =
           Some \<lparr>status = 400, json = ErrorBody ''User not found''\<rparr>"
  using assms
  by (simp add: logoutUser_def logoutUser_try_def UpdateUser_def UpdateUser_try_def
      deleteUser_def deleteUser_try_def try_simps)

theorem C5_account_vanished_answer_witness:
  "res (logoutUser (mem_User test_env) test_env
          ((request_with JUndefined JUndefined JUndefined)\<lparr>req_user := Some alice\<rparr>)
          (init [])) =
     Some \<lparr>status = 400, json = ErrorBody ''User not found''\<rparr>"
  using C5_account_vanished_answer
      [of "(request_with JUndefined JUndefined JUndefined)\<lparr>req_user := Some alice\<rparr>"
          alice "mem_User test_env" "init []" test_env]
  by simp

section \<open>Successful paths\<close>

lemma CreateUser_success:
  assumes "truthy (b_userName (req_body req))" "truthy (b_email (req_body req))"
    "truthy (b_password (req_body req))"
    and "findOne U (Or [Eq UserName (b_userName (req_body req)),
                        Eq Email (b_email (req_body req))]) (db s) = Inr None"
    and "create U [(UserName, b_userName (req_body req)), (Email, b_email (req_body req)),
                   (Password, b_password (req_body req)), (RegistrationDate, JDate (now E))]
           (db s) = (Inr (Some newUser), d1)"
    and "findById U (JStr (doc_id newUser)) d1 = Inr (Some found)"
  shows "res (CreateUser U E req s) =
           Some \<lparr>status = 201,
                 json = ApiResponse 201 (PDoc (select_excl [Password, Version] found))
                          ''User created successfully''\<rparr>"
    and "db (CreateUser U E req s) = d1"
  using assms
  by (simp_all add: CreateUser_def CreateUser_try_def try_simps)

lemma loginUser_success:
  assumes "truthy (b_email (req_body req))" "truthy (b_password (req_body req))"
    and "findOne U (Eq Email (b_email (req_body req))) (db s) = Inr (Some user)"
    and "isPasswordCorrect E user (b_password (req_body req)) = Inr True"
    and "findById U (JStr (doc_id user)) (db s) = Inr (Some user2)"
    and "generateAccessToken E user2 = Inr a"
    and "generateRefreshToken E user2 = Inr r"
    and "save U (assign RefreshToken (JStr r) user2) (db s) = (None, d1)"
  shows "res (loginUser U E req s) =
           Some \<lparr>status = 200,
                 json = ApiResponse 200 (PLogin a user r) ''Login successful''\<rparr>"
    and "db (loginUser U E req s) = d1"
    and "calls_since s (loginUser U E req s) =
           [FindOne (Eq Email (b_email (req_body req))), FindById (JStr (doc_id user)),
            Save (assign RefreshToken (JStr r) user2)]"
  using assms
  by (simp_all add: loginUser_def loginUser_try_def generateAccessAndRefreshTokens_def
      generateAccessAndRefreshTokens_try_def try_simps calls_since_def)

lemma logoutUser_success:
  assumes "req_user req = Some caller"
    and "findById U (JStr (doc_id caller)) (db s) = Inr (Some user)"
    and "save U (assign RefreshToken JNull user) (db s) = (None, d1)"
  shows "res (logoutUser U E req s) =
           Some \<lparr>status = 200, json = ApiResponse 200 PNull ''Logout successful''\<rparr>"
    and "db (logoutUser U E req s) = d1"
  using assms
  by (simp_all add: logoutUser_def logoutUser_try_def try_simps)

lemma UpdateUser_success:
  assumes "req_user req = Some caller"
    and "findById U (JStr (doc_id caller)) (db s) = Inr (Some user)"
    and "truthy (b_userName (req_body req))" "truthy (b_email (req_body req))"
    and "findByIdAndUpdate U (JStr (doc_id caller))
           [(UserName, b_userName (req_body req)), (Email, b_email (req_body req)),
            (LastUpdate, JDate (now E))] (db s) = (Inr (Some updated), d1)"
  shows "res (UpdateUser U E req s) =
           Some \<lparr>status = 200,
                 json = ApiResponse 200 (PDoc (select_excl [Password, Version] updated))
                          ''User updated successfully''\<rparr>"
    and "db (UpdateUser U E req s) = d1"
  using assms
  by (simp_all add: UpdateUser_def UpdateUser_try_def try_simps)

lemma deleteUser_success:
  assumes "req_user req = Some caller"
    and "findById U (JStr (doc_id caller)) (db s) = Inr (Some user)"
    and "save U (assign DeletedAt (JDate (now E)) (assign IsDeleted (JBool True) user))
           (db s) = (None, d1)"
  shows "res (deleteUser U E req s) =
           Some \<lparr>status = 200,
                 json = ApiResponse 200 PNull ''User deleted successfully''\<rparr>"
    and "db (deleteUser U E req s) = d1"
  using assms
  by (simp_all add: deleteUser_def deleteUser_try_def try_simps)

lemma verifyJWT_success:
  assumes "request_token req = JStr t" "t \<noteq> []"
    and "jwt_verify E t (ACCESS_TOKEN_SECRET E) = Inr decodedToken"
    and "findById U (decoded_id decodedToken) (db s) = Inr (Some user)"
  shows "fst (verifyJWT U E req s) =
           Inr (req\<lparr>req_user := Some (select_excl [Password, RefreshToken] user)\<rparr>)"
    and "db (snd (verifyJWT U E req s)) = db s"
    and "res (snd (verifyJWT U E req s)) = res s"
  using assms
  by (simp_all add: verifyJWT_def verifyJWT_try_def try_simps)

lemma isPasswordCorrect_has_hash:
  "isPasswordCorrect E user p = Inr b \<Longrightarrow> \<exists>h. get Password user = JStr h"
  by (auto simp: isPasswordCorrect_def split: jval.splits)

text \<open>What a 201 and a 200 response of the two open routes carry, on any path.\<close>

lemma CreateUser_201:
  assumes "res (CreateUser U E req s) = Some r" and "status r = 201"
  shows "\<exists>found. r = \<lparr>status = 201,
                       json = ApiResponse 201 (PDoc (select_excl [Password, Version] found))
                                ''User created successfully''\<rparr>"
  using assms
  by (auto simp: CreateUser_def CreateUser_try_def try_simps
      split: if_splits sum.splits option.splits prod.splits)

lemma loginUser_200:
  assumes "res (loginUser U E req s) = Some r" and "status r = 200"
  shows "\<exists>a user t. r = \<lparr>status = 200,
                         json = ApiResponse 200 (PLogin a user t) ''Login successful''\<rparr> \<and>
           findOne U (Eq Email (b_email (req_body req))) (db s) = Inr (Some user) \<and>
           isPasswordCorrect E user (b_password (req_body req)) = Inr True"
  using assms
  by (auto simp: loginUser_def loginUser_try_def try_simps
      split: if_splits sum.splits option.splits prod.splits)

text \<open>The same for the collaborator calls behind a 200 response.\<close>

lemma generateAccessAndRefreshTokens_Inr:
  assumes "fst (generateAccessAndRefreshTokens U E uid s) = Inr (a, t)"
  shows "\<exists>copy.
           findById U (JStr uid) (db s) = Inr (Some copy) \<and>
           generateAccessToken E copy = Inr a \<and>
           generateRefreshToken E copy = Inr t \<and>
           save U (assign RefreshToken (JStr t) copy) (db s) =
             (None, db (snd (generateAccessAndRefreshTokens U E uid s))) \<and>
           calls (snd (generateAccessAndRefreshTokens U E uid s)) =
             calls s @ [FindById (JStr uid), Save (assign RefreshToken (JStr t) copy)]"
  using assms
  by (auto simp: generateAccessAndRefreshTokens_def generateAccessAndRefreshTokens_try_def
      try_simps prod_eq_iff split: sum.splits option.splits prod.splits)

lemma loginUser_200_full:
  assumes "res (loginUser U E req s) = Some r" and "status r = 200"
  shows "\<exists>a user t copy.
           r = \<lparr>status = 200,
                json = ApiResponse 200 (PLogin a user t) ''Login successful''\<rparr> \<and>
           findOne U (Eq Email (b_email (req_body req))) (db s) = Inr (Some user) \<and>
           isPasswordCorrect E user (b_password (req_body req)) = Inr True \<and>
           findById U (JStr (doc_id user)) (db s) = Inr (Some copy) \<and>
           generateAccessToken E copy = Inr a \<and>
           generateRefreshToken E copy = Inr t \<and>
           save U (assign RefreshToken (JStr t) copy) (db s) = (None, db (loginUser U E req s)) \<and>
           calls_since s (loginUser U E req s) =
             [FindOne (Eq Email (b_email (req_body req))), FindById (JStr (doc_id user)),
              Save (assign RefreshToken (JStr t) copy)]"
  using assms
  by (auto simp: loginUser_def loginUser_try_def try_simps calls_since_def
      split: if_splits sum.splits option.splits prod.splits
      dest!: generateAccessAndRefreshTokens_Inr)

lemma UpdateUser_200:
  assumes "res (UpdateUser U E req s) = Some r" and "status r = 200"
  shows "\<exists>caller user updated.
           req_user req = Some caller \<and>
           findById U (JStr (doc_id caller)) (db s) = Inr (Some user) \<and>
           findByIdAndUpdate U (JStr (doc_id caller))
             [(UserName, b_userName (req_body req)), (Email, b_email (req_body req)),
              (LastUpdate, JDate (now E))] (db s) =
             (Inr (Some updated), db (UpdateUser U E req s)) \<and>
           r = \<lparr>status = 200,
                json = ApiResponse 200 (PDoc (select_excl [Password, Version] updated))
                         ''User updated successfully''\<rparr>"
  using assms
  by (auto simp: UpdateUser_def UpdateUser_try_def try_simps prod_eq_iff
      split: if_splits sum.splits option.splits prod.splits)

lemma deleteUser_200:
  assumes "res (deleteUser U E req s) = Some r" and "status r = 200"
  shows "\<exists>caller user.
           req_user req = Some caller \<and>
           findById U (JStr (doc_id caller)) (db s) = Inr (Some user) \<and>
           save U (assign DeletedAt (JDate (now E)) (assign IsDeleted (JBool True) user))
             (db s) = (None, db (deleteUser U E req s)) \<and>
           r = \<lparr>status = 200,
                json = ApiResponse 200 PNull ''User deleted successfully''\<rparr>"
  using assms
  by (auto simp: deleteUser_def deleteUser_try_def try_simps prod_eq_iff
      split: if_splits sum.splits option.splits prod.splits)

section \<open>What the responses carry\<close>

lemma get_has_field: "get f d \<noteq> JUndefined \<Longrightarrow> has_field f d"
  by (force simp: get_def has_field_def split: option.splits dest: map_of_SomeD)

lemma response_doc_simps [simp]:
  "res s = Some \<lparr>status = c, json = ApiResponse c' (PDoc d) m\<rparr> \<Longrightarrow> response_doc s = Some d"
  "res s = Some \<lparr>status = c, json = ApiResponse c' (PLogin a d t) m\<rparr> \<Longrightarrow>
     response_doc s = Some d"
  "res s = Some \<lparr>status = c, json = ApiResponse c' PNull m\<rparr> \<Longrightarrow> response_doc s = None"
  "res s = Some \<lparr>status = c, json = ErrorBody m\<rparr> \<Longrightarrow> response_doc s = None"
  by (simp_all add: response_doc_def)

text \<open>
  In the in-memory collection a request with three non-empty strings that matches no
  stored account is answered with 201.
\<close>

lemma find_matches_None:
  assumes "find (matches (Or [Eq UserName u, Eq Email e])) docs = None"
  shows "\<not> list_ex (\<lambda>x. P x \<and> (get UserName x = u \<or> get Email x = e)) docs"
  using assms by (auto simp: find_None_iff list_ex_iff)

lemma by_id_snoc: "by_id (doc_id d) (docs @ [d]) \<noteq> None"
  by (auto simp: by_id_def find_None_iff)

lemma mem_CreateUser_valid_unique:
  assumes "u \<noteq> []" "e \<noteq> []" "p \<noteq> []"
    and "mem_findOne (Or [Eq UserName (JStr u), Eq Email (JStr e)]) docs = Inr None"
  shows "\<exists>found. res (CreateUser (mem_User E) E (request_with (JStr u) (JStr e) (JStr p))
                      (init docs)) =
              Some \<lparr>status = 201,
                    json = ApiResponse 201 (PDoc (select_excl [Password, Version] found))
                             ''User created successfully''\<rparr>"
proof -
  let ?fs = "[(UserName, JStr u), (Email, JStr e), (Password, JStr p),
              (RegistrationDate, JDate (now E))]"
  let ?d = "\<lparr>doc_id = new_ObjectId E (length docs),
             doc_fields =
               [(LastUpdate, JDate (now E)), (RegistrationDate, JDate (now E)),
                (DeletedAt, JNull), (IsDeleted, JBool False), (RefreshToken, JNull),
                (CreatedAt, JDate (now E)), (UpdatedAt, JDate (now E)), (Version, JNum 0),
                (UserName, JStr u), (Email, JStr e), (Password, JStr (bcrypt_hash E p))]\<rparr>"
  have nodup: "\<not> duplicate_key ?d docs"
    using find_matches_None [of "JStr u" "JStr e" docs "\<lambda>x. doc_id x \<noteq> doc_id ?d"] assms(4)
    by (simp add: duplicate_key_def mem_findOne_def get_def)
  have c: "mem_create E ?fs docs = (Inr (Some ?d), docs @ [?d])"
    using assms(1-3) nodup
    by (simp add: mem_create_def required_ok_def pre_save_def get_def assign_def)
  obtain found where f: "mem_findById (JStr (doc_id ?d)) (docs @ [?d]) = Inr (Some found)"
    using by_id_snoc [of ?d docs] by (auto simp: mem_findById_def)
  show ?thesis
    using CreateUser_success(1)
      [of "request_with (JStr u) (JStr e) (JStr p)" "mem_User E" "init docs" E ?d
          "docs @ [?d]" found]
      assms c f
    by auto
qed

text \<open>
  C6. For every valid create request with unique username and email, the account
  returned in the 201 response contains no password field and no version field.
  First for any 201 response of \<^verbatim>\<open>CreateUser\<close>; then that the request is answered with
  201 when the fields are present, no account matches, and the insert and the
  re-fetch succeed; last that in the in-memory collection every request with
  non-empty strings that matches no stored account is answered so.
\<close>

theorem C6_created_account_redacted:
  "(res (CreateUser U E req s) = Some r \<and> status r = 201 \<longrightarrow>
      (\<exists>d. response_doc (CreateUser U E req s) = Some d \<and>
           json r = ApiResponse 201 (PDoc d) ''User created successfully'' \<and>
           \<not> has_field Password d \<and> \<not> has_field Version d)) \<and>
   (truthy (b_userName (req_body req)) \<and> truthy (b_email (req_body req)) \<and>
    truthy (b_password (req_body req)) \<and>
    findOne U (Or [Eq UserName (b_userName (req_body req)),
                   Eq Email (b_email (req_body req))]) (db s) = Inr None \<and>
    create U [(UserName, b_userName (req_body req)), (Email, b_email (req_body req)),
              (Password, b_password (req_body req)), (RegistrationDate, JDate (now E))]
      (db s) = (Inr (Some newUser), d1) \<and>
    findById U (JStr (doc_id newUser)) d1 = Inr (Some found)
    \<longrightarrow> res (CreateUser U E req s) =
          Some \<lparr>status = 201,
                json = ApiResponse 201 (PDoc (select_excl [Password, Version] found))
                         ''User created successfully''\<rparr>) \<and>
   (u \<noteq> [] \<and> e \<noteq> [] \<and> p \<noteq> [] \<and>
    mem_findOne (Or [Eq UserName (JStr u), Eq Email (JStr e)]) docs = Inr None
    \<longrightarrow> (\<exists>d. res (CreateUser (mem_User E) E (request_with (JStr u) (JStr e) (JStr p))
                     (init docs)) =
               Some \<lparr>status = 201,
                     json = ApiResponse 201 (PDoc d) ''User created successfully''\<rparr> \<and>
             \<not> has_field Password d \<and> \<not> has_field Version d))"
proof (intro conjI impI)
  assume a: "res (CreateUser U E req s) = Some r \<and> status r = 201"
  then obtain found where
    r: "r = \<lparr>status = 201,
             json = ApiResponse 201 (PDoc (select_excl [Password, Version] found))
                      ''User created successfully''\<rparr>"
    using CreateUser_201 by blast
  let ?d = "select_excl [Password, Version] found"
  have "response_doc (CreateUser U E req s) = Some ?d"
    using a r by simp
  moreover have "json r = ApiResponse 201 (PDoc ?d) ''User created successfully''"
    using r by simp
  moreover have "\<not> has_field Password ?d" and "\<not> has_field Version ?d"
    by (simp_all add: select_excl_hides)
  ultimately show "\<exists>d. response_doc (CreateUser U E req s) = Some d \<and>
           json r = ApiResponse 201 (PDoc d) ''User created successfully'' \<and>
           \<not> has_field Password d \<and> \<not> has_field Version d"
    by blast
next
  assume "truthy (b_userName (req_body req)) \<and> truthy (b_email (req_body req)) \<and>
    truthy (b_password (req_body req)) \<and>
    findOne U (Or [Eq UserName (b_userName (req_body req)),
                   Eq Email (b_email (req_body req))]) (db s) = Inr None \<and>
    create U [(UserName, b_userName (req_body req)), (Email, b_email (req_body req)),
              (Password, b_password (req_body req)), (RegistrationDate, JDate (now E))]
      (db s) = (Inr (Some newUser), d1) \<and>
    findById U (JStr (doc_id newUser)) d1 = Inr (Some found)"
  then show "res (CreateUser U E req s) =
          Some \<lparr>status = 201,
                json = ApiResponse 201 (PDoc (select_excl [Password, Version] found))
                         ''User created successfully''\<rparr>"
    using CreateUser_success(1) [of req U s E newUser d1 found] by simp
next
  assume "u \<noteq> [] \<and> e \<noteq> [] \<and> p \<noteq> [] \<and>
    mem_findOne (Or [Eq UserName (JStr u), Eq Email (JStr e)]) docs = Inr None"
  then obtain stored where
    "res (CreateUser (mem_User E) E (request_with (JStr u) (JStr e) (JStr p)) (init docs)) =
       Some \<lparr>status = 201,
             json = ApiResponse 201 (PDoc (select_excl [Password, Version] stored))
                      ''User created successfully''\<rparr>"
    using mem_CreateUser_valid_unique [of u e p docs E] by blast
  moreover have "\<not> has_field Password (select_excl [Password, Version] stored)"
    and "\<not> has_field Version (select_excl [Password, Version] stored)"
    by (simp_all add: select_excl_hides)
  ultimately show "\<exists>d. res (CreateUser (mem_User E) E
                            (request_with (JStr u) (JStr e) (JStr p)) (init docs)) =
               Some \<lparr>status = 201,
                     json = ApiResponse 201 (PDoc d) ''User created successfully''\<rparr> \<and>
             \<not> has_field Password d \<and> \<not> has_field Version d"
    by blast
qed

lemma CreateUser_alice:
  "res (CreateUser (mem_User test_env) test_env
          (request_with (JStr ''alice'') (JStr ''a@x.com'') (JStr ''secret1'')) (init [])) =
     Some \<lparr>status = 201,
           json = ApiResponse 201 (PDoc (select_excl [Password, Version] alice))
                    ''User created successfully''\<rparr>"
  using CreateUser_success(1)
      [of "request_with (JStr ''alice'') (JStr ''a@x.com'') (JStr ''secret1'')"
          "mem_User test_env" "init []" test_env alice "[alice]" alice]
  by (simp add: mem_create_alice)

theorem C6_created_account_redacted_witness:
  "\<exists>d. response_doc
          (CreateUser (mem_User test_env) test_env
             (request_with (JStr ''alice'') (JStr ''a@x.com'') (JStr ''secret1''))
             (init [])) = Some d \<and>
       get UserName d = JStr ''alice'' \<and>
       \<not> has_field Password d \<and> \<not> has_field Version d"
proof -
  let ?s = "CreateUser (mem_User test_env) test_env
              (request_with (JStr ''alice'') (JStr ''a@x.com'') (JStr ''secret1'')) (init [])"
  let ?r = "\<lparr>status = 201,
             json = ApiResponse 201 (PDoc (select_excl [Password, Version] alice))
                      ''User created successfully''\<rparr>"
  have "res ?s = Some ?r \<and> status ?r = 201"
    using CreateUser_alice by simp
  then obtain d where d: "response_doc ?s = Some d" "\<not> has_field Password d"
      "\<not> has_field Version d"
    using C6_created_account_redacted
      [where U = "mem_User test_env" and E = test_env and s = "init []" and r = ?r
         and req = "request_with (JStr ''alice'') (JStr ''a@x.com'') (JStr ''secret1'')"]
    by blast
  have "response_doc ?s = Some (select_excl [Password, Version] alice)"
    using CreateUser_alice by simp
  then have "get UserName d = JStr ''alice''"
    using d(1) by (auto simp: select_excl_def get_def alice_def)
  then show ?thesis using d by blast
qed

text \<open>
  C9. The claim: the account object in the 200 response of a login is the user
  document fetched with no field exclusion, so it includes the stored password hash
  and the newly persisted refresh token field. The first part holds. The second does
  not: \<^verbatim>\<open>generateAccessAndRefreshTokens\<close> assigns and saves the new refresh token on a
  document of its own \<^verbatim>\<open>findById\<close>, and that save is the only write. So for every
  200 response of \<^verbatim>\<open>loginUser\<close>: the account in it is the document that \<^verbatim>\<open>findOne\<close>
  returns on the collection as it was before the login, with its password; the token
  in \<^verbatim>\<open>data.refreshToken\<close> is the one generated for the second document and saved on
  it; and the calls are that \<^verbatim>\<open>findOne\<close>, that \<^verbatim>\<open>findById\<close> and that save.
\<close>

theorem C9_login_embeds_fetched_document:
  assumes "res (loginUser U E req s) = Some r" and "status r = 200"
  shows "\<exists>a user t copy.
           json r = ApiResponse 200 (PLogin a user t) ''Login successful'' \<and>
           response_doc (loginUser U E req s) = Some user \<and>
           findOne U (Eq Email (b_email (req_body req))) (db s) = Inr (Some user) \<and>
           has_field Password user \<and>
           findById U (JStr (doc_id user)) (db s) = Inr (Some copy) \<and>
           generateRefreshToken E copy = Inr t \<and>
           save U (assign RefreshToken (JStr t) copy) (db s) =
             (None, db (loginUser U E req s)) \<and>
           calls_since s (loginUser U E req s) =
             [FindOne (Eq Email (b_email (req_body req))), FindById (JStr (doc_id user)),
              Save (assign RefreshToken (JStr t) copy)]"
proof -
  obtain a user t copy where
    r: "r = \<lparr>status = 200,
             json = ApiResponse 200 (PLogin a user t) ''Login successful''\<rparr>"
    and f: "findOne U (Eq Email (b_email (req_body req))) (db s) = Inr (Some user)"
    and p: "isPasswordCorrect E user (b_password (req_body req)) = Inr True"
    and c: "findById U (JStr (doc_id user)) (db s) = Inr (Some copy)"
    and g: "generateRefreshToken E copy = Inr t"
    and w: "save U (assign RefreshToken (JStr t) copy) (db s) =
              (None, db (loginUser U E req s))"
    and l: "calls_since s (loginUser U E req s) =
              [FindOne (Eq Email (b_email (req_body req))), FindById (JStr (doc_id user)),
               Save (assign RefreshToken (JStr t) copy)]"
    using loginUser_200_full [OF assms] by blast
  have "json r = ApiResponse 200 (PLogin a user t) ''Login successful''"
    using r by simp
  moreover have "response_doc (loginUser U E req s) = Some user"
    using assms(1) r by simp
  moreover have "has_field Password user"
    using isPasswordCorrect_has_hash [OF p] by (auto intro: get_has_field)
  ultimately show ?thesis using f c g w l by blast
qed

lemma toy_tokens [simp]:
  "generateAccessToken test_env alice = Inr ''A.u''"
  "generateRefreshToken test_env alice = Inr ''R.u''"
  "generateAccessToken test_env deleted_alice = Inr ''A.u''"
  "generateRefreshToken test_env deleted_alice = Inr ''R.u''"
  by (simp_all add: generateAccessToken_def generateRefreshToken_def toy_sign_def)

lemma mem_save_token:
  "mem_save test_env (assign RefreshToken (JStr t) alice) [alice] =
     (None, [assign UpdatedAt (JDate 1000) (assign RefreshToken (JStr t) alice)])"
  "mem_save test_env (assign RefreshToken (JStr t) deleted_alice) [deleted_alice] =
     (None, [assign UpdatedAt (JDate 1000) (assign RefreshToken (JStr t) deleted_alice)])"
  by (simp_all add: mem_save_def by_id_def pre_save_def duplicate_key_def replace_doc_def
      assign_def get_def alice_def deleted_alice_def)

lemma loginUser_alice:
  "res (loginUser (mem_User test_env) test_env
          (request_with JUndefined (JStr ''a@x.com'') (JStr ''secret1'')) (init [alice])) =
     Some \<lparr>status = 200,
           json = ApiResponse 200 (PLogin ''A.u'' alice ''R.u'') ''Login successful''\<rparr>"
  "db (loginUser (mem_User test_env) test_env
         (request_with JUndefined (JStr ''a@x.com'') (JStr ''secret1'')) (init [alice])) =
     [assign UpdatedAt (JDate 1000) (assign RefreshToken (JStr ''R.u'') alice)]"
  using loginUser_success(1,2)
      [of "request_with JUndefined (JStr ''a@x.com'') (JStr ''secret1'')"
          "mem_User test_env" "init [alice]" alice test_env alice "''A.u''" "''R.u''"
          "[assign UpdatedAt (JDate 1000) (assign RefreshToken (JStr ''R.u'') alice)]"]
  by (simp_all add: mem_findOne_email mem_save_token)

theorem C9_login_embeds_fetched_document_witness:
  "response_doc
     (loginUser (mem_User test_env) test_env
        (request_with JUndefined (JStr ''a@x.com'') (JStr ''secret1'')) (init [alice])) =
     Some alice \<and> has_field Password alice \<and>
   calls_since (init [alice])
     (loginUser (mem_User test_env) test_env
        (request_with JUndefined (JStr ''a@x.com'') (JStr ''secret1'')) (init [alice])) =
     [FindOne (Eq Email (JStr ''a@x.com'')), FindById (JStr ''u''),
      Save (assign RefreshToken (JStr ''R.u'') alice)]"
  using C9_login_embeds_fetched_document
      [where U = "mem_User test_env" and E = test_env and s = "init [alice]"
         and req = "request_with JUndefined (JStr ''a@x.com'') (JStr ''secret1'')"
         and r = "\<lparr>status = 200,
                    json = ApiResponse 200 (PLogin ''A.u'' alice ''R.u'')
                             ''Login successful''\<rparr>"]
    loginUser_alice(1)
  by (auto simp: mem_findOne_email)

theorem C9_stale_refresh_token_counterexample:
  "response_doc
     (loginUser (mem_User test_env) test_env
        (request_with JUndefined (JStr ''a@x.com'') (JStr ''secret1'')) (init [alice])) =
     Some alice \<and>
   get RefreshToken alice = JNull \<and>
   map (get RefreshToken)
     (db (loginUser (mem_User test_env) test_env
            (request_with JUndefined (JStr ''a@x.com'') (JStr ''secret1'')) (init [alice]))) =
     [JStr ''R.u'']"
  using loginUser_alice
  by (simp add: get_def assign_def alice_def)

section \<open>The session middleware\<close>

lemma verifyJWT_fails_401:
  "fst (verifyJWT U E req s) = Inl e \<Longrightarrow> \<exists>m. e = ApiError 401 m"
  by (auto simp: verifyJWT_def split: prod.splits sum.splits)

lemma verifyJWT_no_token:
  assumes "\<not> truthy (request_token req)"
  shows "verifyJWT U E req s = (Inl (ApiError 401 ''Unauthorized''), s)"
  using assms by (simp add: verifyJWT_def verifyJWT_try_def)

lemma verifyJWT_bad_token:
  assumes "request_token req = JStr t" "t \<noteq> []"
    and "jwt_verify E t (ACCESS_TOKEN_SECRET E) = Inl e"
  shows "fst (verifyJWT U E req s) =
           Inl (ApiError 401 (if message e \<noteq> [] then message e else ''Invalid Access Token''))"
    and "calls_since s (snd (verifyJWT U E req s)) = [JwtVerify t]"
  using assms by (simp_all add: verifyJWT_def verifyJWT_try_def try_simps calls_since_def)

lemma verifyJWT_no_account:
  assumes "request_token req = JStr t" "t \<noteq> []"
    and "jwt_verify E t (ACCESS_TOKEN_SECRET E) = Inr decodedToken"
    and "findById U (decoded_id decodedToken) (db s) = Inr None"
  shows "fst (verifyJWT U E req s) = Inl (ApiError 401 ''Invalid access Token'')"
  using assms by (simp add: verifyJWT_def verifyJWT_try_def try_simps)

lemma protected_runs:
  "(fst (verifyJWT U E req s) = Inl e \<longrightarrow>
      protected U E controller req s = (Some e, snd (verifyJWT U E req s))) \<and>
   (fst (verifyJWT U E req s) = Inr r \<longrightarrow>
      protected U E controller req s = (None, controller U E r (snd (verifyJWT U E req s))))"
  by (auto simp: protected_def split: prod.splits)

text \<open>
  C7. The session middleware fails with status 401 when the access token is missing
  (no verification and no lookup is attempted: the state, with its log of calls, is
  unchanged), when the verification of the token fails, and when no account has the
  id of the token; otherwise it passes on the request with the resolved account, from
  which password and refresh token are removed. Whatever it throws is an
  \<^verbatim>\<open>ApiError\<close> with status 401; a protected route runs its controller on the request
  the middleware passes on, and does not run it when the middleware throws.
\<close>

theorem C7_session_middleware:
  "(\<forall>e. fst (verifyJWT U E req s) = Inl e \<longrightarrow> statusCode e = Some 401) \<and>
   (\<not> truthy (request_token req) \<longrightarrow>
      verifyJWT U E req s = (Inl (ApiError 401 ''Unauthorized''), s)) \<and>
   (request_token req = JStr t \<and> t \<noteq> [] \<longrightarrow>
      (\<forall>e. jwt_verify E t (ACCESS_TOKEN_SECRET E) = Inl e \<longrightarrow>
         (\<exists>m. fst (verifyJWT U E req s) = Inl (ApiError 401 m))) \<and>
      (\<forall>decodedToken. jwt_verify E t (ACCESS_TOKEN_SECRET E) = Inr decodedToken \<longrightarrow>
         (findById U (decoded_id decodedToken) (db s) = Inr None \<longrightarrow>
            fst (verifyJWT U E req s) = Inl (ApiError 401 ''Invalid access Token'')) \<and>
         (\<forall>user. findById U (decoded_id decodedToken) (db s) = Inr (Some user) \<longrightarrow>
            fst (verifyJWT U E req s) =
              Inr (req\<lparr>req_user := Some (select_excl [Password, RefreshToken] user)\<rparr>) \<and>
            \<not> has_field Password (select_excl [Password, RefreshToken] user) \<and>
            \<not> has_field RefreshToken (select_excl [Password, RefreshToken] user)))) \<and>
   (\<forall>e. fst (verifyJWT U E req s) = Inl e \<longrightarrow>
      protected U E controller req s = (Some e, snd (verifyJWT U E req s))) \<and>
   (\<forall>r. fst (verifyJWT U E req s) = Inr r \<longrightarrow>
      protected U E controller req s =
        (None, controller U E r (snd (verifyJWT U E req s))))"
proof (intro conjI allI impI)
  fix e assume "fst (verifyJWT U E req s) = Inl e"
  then show "statusCode e = Some 401"
    using verifyJWT_fails_401 by fastforce
next
  assume "\<not> truthy (request_token req)"
  then show "verifyJWT U E req s = (Inl (ApiError 401 ''Unauthorized''), s)"
    by (rule verifyJWT_no_token)
next
  fix e
  assume "request_token req = JStr t \<and> t \<noteq> []"
    and "jwt_verify E t (ACCESS_TOKEN_SECRET E) = Inl e"
  then show "\<exists>m. fst (verifyJWT U E req s) = Inl (ApiError 401 m)"
    using verifyJWT_bad_token(1) by blast
next
  fix decodedToken
  assume "request_token req = JStr t \<and> t \<noteq> []"
    and "jwt_verify E t (ACCESS_TOKEN_SECRET E) = Inr decodedToken"
    and "findById U (decoded_id decodedToken) (db s) = Inr None"
  then show "fst (verifyJWT U E req s) = Inl (ApiError 401 ''Invalid access Token'')"
    using verifyJWT_no_account by blast
next
  fix decodedToken user
  assume "request_token req = JStr t \<and> t \<noteq> []"
    and "jwt_verify E t (ACCESS_TOKEN_SECRET E) = Inr decodedToken"
    and "findById U (decoded_id decodedToken) (db s) = Inr (Some user)"
  then show "fst (verifyJWT U E req s) =
      Inr (req\<lparr>req_user := Some (select_excl [Password, RefreshToken] user)\<rparr>)"
    using verifyJWT_success(1) by blast
next
  fix user
  show "\<not> has_field Password (select_excl [Password, RefreshToken] user)"
    by (simp add: select_excl_hides)
next
  fix user
  show "\<not> has_field RefreshToken (select_excl [Password, RefreshToken] user)"
    by (simp add: select_excl_hides)
next
  fix e assume "fst (verifyJWT U E req s) = Inl e"
  then show "protected U E controller req s = (Some e, snd (verifyJWT U E req s))"
    using protected_runs [of U E req s e controller] by simp
next
  fix r assume "fst (verifyJWT U E req s) = Inr r"
  then show "protected U E controller req s =
      (None, controller U E r (snd (verifyJWT U E req s)))"
    using protected_runs [of U E req s _ controller r] by simp
qed

lemma bearer_request_simps [simp]:
  "b_userName (req_body (bearer_request h u e)) = u"
  "b_email (req_body (bearer_request h u e)) = e"
  "req_user (bearer_request h u e) = None"
  by (simp_all add: bearer_request_def request_with_def)

lemma request_token_bearer [simp]:
  "request_token (bearer_request ''Bearer A.u'' u e) = JStr ''A.u''"
  "request_token (request_with u e p) = JUndefined"
  by (simp_all add: request_token_def bearer_request_def request_with_def)

lemma toy_verify_Au [simp]: "toy_verify ''A.u'' (JStr ''A'') = Inr [(''_id'', JStr ''u'')]"
  by (simp add: toy_verify_def)

lemma decoded_id_u [simp]: "decoded_id [(''_id'', JStr ''u'')] = JStr ''u''"
  by (simp add: decoded_id_def)

theorem C7_session_middleware_witness:
  "verifyJWT (mem_User test_env) test_env (request_with JUndefined JUndefined JUndefined)
     (init [alice]) = (Inl (ApiError 401 ''Unauthorized''), init [alice]) \<and>
   fst (verifyJWT (mem_User test_env) test_env
          (bearer_request ''Bearer A.u'' JUndefined JUndefined) (init [])) =
     Inl (ApiError 401 ''Invalid access Token'') \<and>
   fst (verifyJWT (mem_User test_env) test_env
          (bearer_request ''Bearer A.u'' JUndefined JUndefined) (init [alice])) =
     Inr ((bearer_request ''Bearer A.u'' JUndefined JUndefined)
            \<lparr>req_user := Some (select_excl [Password, RefreshToken] alice)\<rparr>)"
  using C7_session_middleware
      [of "mem_User test_env" test_env "request_with JUndefined JUndefined JUndefined"
          "init [alice]"]
    C7_session_middleware
      [of "mem_User test_env" test_env "bearer_request ''Bearer A.u'' JUndefined JUndefined"
          "init []" "''A.u''"]
    C7_session_middleware
      [of "mem_User test_env" test_env "bearer_request ''Bearer A.u'' JUndefined JUndefined"
          "init [alice]" "''A.u''"]
  by simp

section \<open>Update and delete\<close>

lemma UpdateUser_invalid_input:
  assumes "\<not> truthy (b_userName (req_body req)) \<or> \<not> truthy (b_email (req_body req))"
  shows "db (UpdateUser U E req s) = db s"
    and "\<exists>m. res (UpdateUser U E req s) = Some \<lparr>status = 400, json = ErrorBody m\<rparr>"
  using assms
  by (auto simp: UpdateUser_def UpdateUser_try_def try_simps
      split: option.splits sum.splits)

lemma UpdateUser_invalid_input_found:
  assumes "\<not> truthy (b_userName (req_body req)) \<or> \<not> truthy (b_email (req_body req))"
    and "req_user req = Some caller"
    and "findById U (JStr (doc_id caller)) (db s) = Inr (Some user)"
  shows "fst (UpdateUser_try U E req sp s) = Some (ApiError 400 ''Username and email are required'')"
    and "res (UpdateUser U E req s) =
           Some \<lparr>status = 400, json = ErrorBody ''Username and email are required''\<rparr>"
    and "calls_since s (UpdateUser U E req s) = [FindById (JStr (doc_id caller))]"
  using assms
  by (auto simp: UpdateUser_def UpdateUser_try_def try_simps calls_since_def)

text \<open>
  C8. An authenticated update request without the email field, or without the
  username field, fails with \<^verbatim>\<open>ApiError(400, "Username and email are required")\<close>, is
  answered with status 400, and leaves the collection as it was. The input check comes
  after the fetch of the caller's account, so the error is this one when the fetch
  finds the account; status 400 and the unchanged collection hold whatever the fetch
  gives.
\<close>

theorem C8_update_missing_field:
  assumes "\<not> truthy (b_userName (req_body req)) \<or> \<not> truthy (b_email (req_body req))"
  shows "db (UpdateUser U E req s) = db s \<and>
         (\<exists>m. res (UpdateUser U E req s) = Some \<lparr>status = 400, json = ErrorBody m\<rparr>) \<and>
         (req_user req = Some caller \<and>
          findById U (JStr (doc_id caller)) (db s) = Inr (Some user) \<longrightarrow>
            fst (UpdateUser_try U E req sp s) =
              Some (ApiError 400 ''Username and email are required'') \<and>
            res (UpdateUser U E req s) =
              Some \<lparr>status = 400, json = ErrorBody ''Username and email are required''\<rparr> \<and>
            calls_since s (UpdateUser U E req s) = [FindById (JStr (doc_id caller))])"
  using UpdateUser_invalid_input [OF assms, where U = U and E = E and s = s]
    UpdateUser_invalid_input_found(1)
      [OF assms, where U = U and E = E and s = s and caller = caller and user = user
         and sp = sp]
    UpdateUser_invalid_input_found(2,3)
      [OF assms, where U = U and E = E and s = s and caller = caller and user = user]
  by simp

theorem C8_update_missing_field_witness:
  "db (UpdateUser (mem_User test_env) test_env
         ((request_with (JStr ''al'') JUndefined JUndefined)\<lparr>req_user := Some alice\<rparr>)
         (init [alice])) = [alice] \<and>
   res (UpdateUser (mem_User test_env) test_env
          ((request_with (JStr ''al'') JUndefined JUndefined)\<lparr>req_user := Some alice\<rparr>)
          (init [alice])) =
     Some \<lparr>status = 400, json = ErrorBody ''Username and email are required''\<rparr>"
  using C8_update_missing_field
      [of "(request_with (JStr ''al'') JUndefined JUndefined)\<lparr>req_user := Some alice\<rparr>"
          "mem_User test_env" test_env "init [alice]" alice alice]
  by (simp add: request_with_def)

lemma UpdateUser_calls:
  assumes "req_user req = Some caller"
  shows "list_all (acts_on U (db s) (JStr (doc_id caller))) (calls_since s (UpdateUser U E req s))"
  using assms
  by (auto simp: UpdateUser_def UpdateUser_try_def try_simps calls_since_def acts_on_def
      split: option.splits sum.splits)

lemma deleteUser_calls:
  assumes "req_user req = Some caller"
  shows "list_all (acts_on U (db s) (JStr (doc_id caller))) (calls_since s (deleteUser U E req s))"
  using assms
  by (auto simp: deleteUser_def deleteUser_try_def try_simps calls_since_def acts_on_def
      split: option.splits sum.splits prod.splits)

lemma UpdateUser_db:
  assumes "req_user req = Some caller"
  shows "db (UpdateUser U E req s) = db s \<or>
         db (UpdateUser U E req s) =
           snd (findByIdAndUpdate U (JStr (doc_id caller))
                  [(UserName, b_userName (req_body req)), (Email, b_email (req_body req)),
                   (LastUpdate, JDate (now E))] (db s))"
  using assms
  by (auto simp: UpdateUser_def UpdateUser_try_def try_simps
      split: option.splits sum.splits prod.splits)

lemma deleteUser_db:
  assumes "req_user req = Some caller"
  shows "db (deleteUser U E req s) = db s \<or>
         (\<exists>user. findById U (JStr (doc_id caller)) (db s) = Inr (Some user) \<and>
            db (deleteUser U E req s) =
              snd (save U (assign DeletedAt (JDate (now E))
                             (assign IsDeleted (JBool True) user)) (db s)))"
  using assms
  by (auto simp: deleteUser_def deleteUser_try_def try_simps
      split: option.splits sum.splits prod.splits)

text \<open>In the in-memory collection a write by id leaves the other documents alone.\<close>

lemma others_replace_doc:
  "filter (\<lambda>x. doc_id x \<noteq> doc_id d) (replace_doc d docs) =
   filter (\<lambda>x. doc_id x \<noteq> doc_id d) docs"
  by (induction docs) (auto simp: replace_doc_def)

lemma by_id_Some: "by_id i docs = Some d \<Longrightarrow> doc_id d = i"
  by (auto simp: by_id_def find_Some_iff)

lemma others_mem_findByIdAndUpdate:
  "filter (\<lambda>x. doc_id x \<noteq> i) (snd (mem_findByIdAndUpdate E (JStr i) fs docs)) =
   filter (\<lambda>x. doc_id x \<noteq> i) docs"
proof (cases "by_id i docs")
  case None
  then show ?thesis by (simp add: mem_findByIdAndUpdate_def mem_findById_def)
next
  case (Some stored)
  let ?d = "assign UpdatedAt (JDate (now E))
              (stored\<lparr>doc_fields := fold (\<lambda>p. assign_list (fst p) (snd p)) fs
                                       (doc_fields stored)\<rparr>)"
  have "doc_id ?d = i" using by_id_Some [OF Some] by simp
  then have "filter (\<lambda>x. doc_id x \<noteq> i) (replace_doc ?d docs) =
             filter (\<lambda>x. doc_id x \<noteq> i) docs"
    using others_replace_doc [of ?d docs] by simp
  then show ?thesis
    using Some by (simp add: mem_findByIdAndUpdate_def mem_findById_def Let_def)
qed

lemma others_mem_save:
  "filter (\<lambda>x. doc_id x \<noteq> doc_id d) (snd (mem_save E d docs)) =
   filter (\<lambda>x. doc_id x \<noteq> doc_id d) docs"
proof -
  have "filter (\<lambda>x. doc_id x \<noteq> doc_id d) (replace_doc (assign UpdatedAt v d1) docs) =
        filter (\<lambda>x. doc_id x \<noteq> doc_id d) docs" if "doc_id d1 = doc_id d" for v d1
    using others_replace_doc [of "assign UpdatedAt v d1" docs] that by simp
  moreover have "doc_id d1 = doc_id d" if "pre_save E m d = Inr d1" for m d1
    using that by (auto simp: pre_save_def split: if_splits jval.splits)
  ultimately show ?thesis
    by (auto simp: mem_save_def Let_def split: option.splits sum.splits)
qed

lemma mem_findById_Some: "mem_findById (JStr i) docs = Inr (Some d) \<Longrightarrow> doc_id d = i"
  by (simp add: mem_findById_def by_id_Some)

text \<open>The path parameter is carried through the middleware and read by nobody.\<close>

lemma request_token_params [simp]:
  "request_token (req\<lparr>req_params_id := p\<rparr>) = request_token req"
  by (simp add: request_token_def Let_def cong: if_cong)

lemma verifyJWT_try_params:
  "verifyJWT_try U E (req\<lparr>req_params_id := p\<rparr>) s =
     (case verifyJWT_try U E req s of
        (Inl e, s1) \<Rightarrow> (Inl e, s1)
      | (Inr r, s1) \<Rightarrow> (Inr (r\<lparr>req_params_id := p\<rparr>), s1))"
proof (cases "truthy (request_token req)")
  case False
  then show ?thesis by (simp add: verifyJWT_try_def)
next
  case True
  then obtain t where t: "request_token req = JStr t"
    by (cases "request_token req")
      (simp_all add: request_token_def Let_def split: option.splits if_splits)
  show ?thesis
  proof (cases "jwt_verify E t (ACCESS_TOKEN_SECRET E)")
    case (Inl e)
    then show ?thesis using True t by (simp add: verifyJWT_try_def try_simps)
  next
    case (Inr decodedToken)
    then show ?thesis
      using True t
      by (cases "findById U (decoded_id decodedToken) (db s)")
        (auto simp: verifyJWT_try_def try_simps split: option.splits)
  qed
qed

lemma UpdateUser_params:
  "UpdateUser U E (req\<lparr>req_params_id := p\<rparr>) s = UpdateUser U E req s"
  by (simp add: UpdateUser_def UpdateUser_try_def Let_def case_prod_beta
      cong: option.case_cong)

lemma deleteUser_params:
  "deleteUser U E (req\<lparr>req_params_id := p\<rparr>) s = deleteUser U E req s"
  by (simp add: deleteUser_def deleteUser_try_def Let_def case_prod_beta
      cong: option.case_cong)

lemma protected_params:
  assumes "\<And>r q s1. controller U E (r\<lparr>req_params_id := q\<rparr>) s1 = controller U E r s1"
  shows "protected U E controller (req\<lparr>req_params_id := p\<rparr>) s =
         protected U E controller req s"
proof (cases "verifyJWT_try U E req s")
  case (Pair x s1)
  then show ?thesis
    by (cases x) (simp_all add: protected_def verifyJWT_def verifyJWT_try_params assms)
qed

lemma verifyJWT_success_calls:
  assumes "request_token req = JStr t" "t \<noteq> []"
    and "jwt_verify E t (ACCESS_TOKEN_SECRET E) = Inr decodedToken"
    and "findById U (decoded_id decodedToken) (db s) = Inr (Some user)"
  shows "calls (snd (verifyJWT U E req s)) =
           calls s @ [JwtVerify t, FindById (decoded_id decodedToken)]"
  using assms
  by (simp add: verifyJWT_def verifyJWT_try_def try_simps)

lemma UpdateUser_success_calls:
  assumes "req_user req = Some caller"
    and "findById U (JStr (doc_id caller)) (db s) = Inr (Some user)"
    and "truthy (b_userName (req_body req))" "truthy (b_email (req_body req))"
    and "findByIdAndUpdate U (JStr (doc_id caller))
           [(UserName, b_userName (req_body req)), (Email, b_email (req_body req)),
            (LastUpdate, JDate (now E))] (db s) = (Inr (Some updated), coll)"
  shows "calls (UpdateUser U E req s) =
           calls s @
           [FindById (JStr (doc_id caller)),
            FindByIdAndUpdate (JStr (doc_id caller))
              [(UserName, b_userName (req_body req)), (Email, b_email (req_body req)),
               (LastUpdate, JDate (now E))]]"
  using assms
  by (simp add: UpdateUser_def UpdateUser_try_def try_simps)

lemma deleteUser_success_calls:
  assumes "req_user req = Some caller"
    and "findById U (JStr (doc_id caller)) (db s) = Inr (Some user)"
    and "save U (assign DeletedAt (JDate (now E)) (assign IsDeleted (JBool True) user))
           (db s) = (None, coll)"
  shows "calls (deleteUser U E req s) =
           calls s @
           [FindById (JStr (doc_id caller)),
            Save (assign DeletedAt (JDate (now E)) (assign IsDeleted (JBool True) user))]"
  using assms
  by (simp add: deleteUser_def deleteUser_try_def try_simps)

lemma router_Update_success:
  assumes "request_token req = JStr t" "t \<noteq> []"
    and "jwt_verify E t (ACCESS_TOKEN_SECRET E) = Inr decodedToken"
    and "findById U (decoded_id decodedToken) (db s) = Inr (Some user)"
    and "findById U (JStr (doc_id user)) (db s) = Inr (Some stored)"
    and "truthy (b_userName (req_body req))" "truthy (b_email (req_body req))"
    and "findByIdAndUpdate U (JStr (doc_id user))
           [(UserName, b_userName (req_body req)), (Email, b_email (req_body req)),
            (LastUpdate, JDate (now E))] (db s) = (Inr (Some updated), coll)"
  shows "fst (router U E (Update i) req s) = None"
    and "res (snd (router U E (Update i) req s)) =
           Some \<lparr>status = 200,
                 json = ApiResponse 200 (PDoc (select_excl [Password, Version] updated))
                          ''User updated successfully''\<rparr>"
    and "db (snd (router U E (Update i) req s)) = coll"
    and "calls_since s (snd (router U E (Update i) req s)) =
           [JwtVerify t, FindById (decoded_id decodedToken), FindById (JStr (doc_id user)),
            FindByIdAndUpdate (JStr (doc_id user))
              [(UserName, b_userName (req_body req)), (Email, b_email (req_body req)),
               (LastUpdate, JDate (now E))]]"
proof -
  let ?req = "req\<lparr>req_params_id := Some i\<rparr>"
  let ?caller = "select_excl [Password, RefreshToken] user"
  let ?r = "?req\<lparr>req_user := Some ?caller\<rparr>"
  let ?S = "snd (verifyJWT U E ?req s)"
  have t: "request_token ?req = JStr t" using assms(1) by simp
  have v: "fst (verifyJWT U E ?req s) = Inr ?r" and vd: "db ?S = db s"
    using verifyJWT_success(1,2) [OF t assms(2,3,4)] by simp_all
  have vc: "calls ?S = calls s @ [JwtVerify t, FindById (decoded_id decodedToken)]"
    using verifyJWT_success_calls [OF t assms(2,3,4)] .
  have run: "router U E (Update i) req s = (None, UpdateUser U E ?r ?S)"
    using protected_runs [of U E ?req s _ UpdateUser ?r] v by simp
  have c: "req_user ?r = Some ?caller" by simp
  have f: "findById U (JStr (doc_id ?caller)) (db ?S) = Inr (Some stored)"
    using assms(5) vd by simp
  have b: "truthy (b_userName (req_body ?r))" "truthy (b_email (req_body ?r))"
    using assms(6,7) by simp_all
  have w: "findByIdAndUpdate U (JStr (doc_id ?caller))
             [(UserName, b_userName (req_body ?r)), (Email, b_email (req_body ?r)),
              (LastUpdate, JDate (now E))] (db ?S) = (Inr (Some updated), coll)"
    using assms(8) vd by simp
  show "fst (router U E (Update i) req s) = None" using run by simp
  show "res (snd (router U E (Update i) req s)) =
           Some \<lparr>status = 200,
                 json = ApiResponse 200 (PDoc (select_excl [Password, Version] updated))
                          ''User updated successfully''\<rparr>"
    using run UpdateUser_success(1) [OF c f b w] by simp
  show "db (snd (router U E (Update i) req s)) = coll"
    using run UpdateUser_success(2) [OF c f b w] by simp
  show "calls_since s (snd (router U E (Update i) req s)) =
           [JwtVerify t, FindById (decoded_id decodedToken), FindById (JStr (doc_id user)),
            FindByIdAndUpdate (JStr (doc_id user))
              [(UserName, b_userName (req_body req)), (Email, b_email (req_body req)),
               (LastUpdate, JDate (now E))]]"
    using run UpdateUser_success_calls [OF c f b w] vc by (simp add: calls_since_def)
qed

lemma router_Delete_success:
  assumes "request_token req = JStr t" "t \<noteq> []"
    and "jwt_verify E t (ACCESS_TOKEN_SECRET E) = Inr decodedToken"
    and "findById U (decoded_id decodedToken) (db s) = Inr (Some user)"
    and "findById U (JStr (doc_id user)) (db s) = Inr (Some stored)"
    and "save U (assign DeletedAt (JDate (now E)) (assign IsDeleted (JBool True) stored))
           (db s) = (None, coll)"
  shows "fst (router U E (Delete i) req s) = None"
    and "res (snd (router U E (Delete i) req s)) =
           Some \<lparr>status = 200,
                 json = ApiResponse 200 PNull ''User deleted successfully''\<rparr>"
    and "db (snd (router U E (Delete i) req s)) = coll"
    and "calls_since s (snd (router U E (Delete i) req s)) =
           [JwtVerify t, FindById (decoded_id decodedToken), FindById (JStr (doc_id user)),
            Save (assign DeletedAt (JDate (now E)) (assign IsDeleted (JBool True) stored))]"
proof -
  let ?req = "req\<lparr>req_params_id := Some i\<rparr>"
  let ?caller = "select_excl [Password, RefreshToken] user"
  let ?r = "?req\<lparr>req_user := Some ?caller\<rparr>"
  let ?S = "snd (verifyJWT U E ?req s)"
  have t: "request_token ?req = JStr t" using assms(1) by simp
  have v: "fst (verifyJWT U E ?req s) = Inr ?r" and vd: "db ?S = db s"
    using verifyJWT_success(1,2) [OF t assms(2,3,4)] by simp_all
  have vc: "calls ?S = calls s @ [JwtVerify t, FindById (decoded_id decodedToken)]"
    using verifyJWT_success_calls [OF t assms(2,3,4)] .
  have run: "router U E (Delete i) req s = (None, deleteUser U E ?r ?S)"
    using protected_runs [of U E ?req s _ deleteUser ?r] v by simp
  have c: "req_user ?r = Some ?caller" by simp
  have f: "findById U (JStr (doc_id ?caller)) (db ?S) = Inr (Some stored)"
    using assms(5) vd by simp
  have w: "save U (assign DeletedAt (JDate (now E)) (assign IsDeleted (JBool True) stored))
             (db ?S) = (None, coll)"
    using assms(6) vd by simp
  show "fst (router U E (Delete i) req s) = None" using run by simp
  show "res (snd (router U E (Delete i) req s)) =
           Some \<lparr>status = 200,
                 json = ApiResponse 200 PNull ''User deleted successfully''\<rparr>"
    using run deleteUser_success(1) [OF c f w] by simp
  show "db (snd (router U E (Delete i) req s)) = coll"
    using run deleteUser_success(2) [OF c f w] by simp
  show "calls_since s (snd (router U E (Delete i) req s)) =
           [JwtVerify t, FindById (decoded_id decodedToken), FindById (JStr (doc_id user)),
            Save (assign DeletedAt (JDate (now E)) (assign IsDeleted (JBool True) stored))]"
    using run deleteUser_success_calls [OF c f w] vc by (simp add: calls_since_def)
qed

text \<open>What a write by id leaves under that id in the in-memory collection.\<close>

lemma map_of_assign_list:
  "map_of (assign_list k v ps) f = (if f = k then Some v else map_of ps f)"
  by (induction ps) auto

lemma get_assign: "get f (assign k v d) = (if f = k then v else get f d)"
  by (simp add: get_def assign_def map_of_assign_list)

lemma by_id_replace_doc:
  "by_id (doc_id d) docs = Some stored \<Longrightarrow> by_id (doc_id d) (replace_doc d docs) = Some d"
  by (induction docs) (auto simp: by_id_def replace_doc_def split: if_splits)

lemma mem_findByIdAndUpdate_Some:
  assumes "mem_findByIdAndUpdate E (JStr i) [(UserName, u), (Email, e), (LastUpdate, l)] docs =
             (Inr (Some d), coll)"
  shows "by_id i coll = Some d \<and> get UserName d = u \<and> get Email d = e"
proof (cases "by_id i docs")
  case None
  then show ?thesis using assms by (simp add: mem_findByIdAndUpdate_def mem_findById_def)
next
  case (Some stored)
  let ?d = "assign UpdatedAt (JDate (now E))
              (stored\<lparr>doc_fields :=
                 fold (\<lambda>p. assign_list (fst p) (snd p))
                   [(UserName, u), (Email, e), (LastUpdate, l)] (doc_fields stored)\<rparr>)"
  have i: "doc_id ?d = i" using by_id_Some [OF Some] by simp
  have d: "d = ?d" and c: "coll = replace_doc ?d docs"
    using assms Some
    by (auto simp: mem_findByIdAndUpdate_def mem_findById_def Let_def split: if_splits)
  have "by_id (doc_id ?d) (replace_doc ?d docs) = Some ?d"
    using by_id_replace_doc [of ?d docs stored] Some i by simp
  moreover have "get UserName ?d = u" "get Email ?d = e"
    by (simp_all add: get_def assign_def map_of_assign_list)
  ultimately show ?thesis using d c i by simp
qed

lemma pre_save_keeps:
  "pre_save E m x = Inr d \<Longrightarrow> doc_id d = doc_id x \<and> (f \<noteq> Password \<longrightarrow> get f d = get f x)"
  by (auto simp: pre_save_def get_assign split: if_splits jval.splits)

lemma mem_save_None:
  assumes "mem_save E x docs = (None, coll)"
  shows "\<exists>d. by_id (doc_id x) coll = Some d \<and> get IsDeleted d = get IsDeleted x \<and>
             get DeletedAt d = get DeletedAt x"
proof (cases "by_id (doc_id x) docs")
  case None
  then show ?thesis using assms by (simp add: mem_save_def)
next
  case (Some stored)
  then obtain d1 where p: "pre_save E
      (map fst (filter (\<lambda>p. get (fst p) stored \<noteq> snd p) (doc_fields x))) x = Inr d1"
    and c: "coll = replace_doc (assign UpdatedAt (JDate (now E)) d1) docs"
    using assms by (auto simp: mem_save_def Let_def split: sum.splits if_splits)
  let ?d = "assign UpdatedAt (JDate (now E)) d1"
  have i: "doc_id ?d = doc_id x" using pre_save_keeps [OF p] by simp
  have "by_id (doc_id ?d) (replace_doc ?d docs) = Some ?d"
    using by_id_replace_doc [of ?d docs stored] Some i by simp
  moreover have "get IsDeleted ?d = get IsDeleted x" "get DeletedAt ?d = get DeletedAt x"
    using pre_save_keeps [OF p, of IsDeleted] pre_save_keeps [OF p, of DeletedAt]
    by (simp_all add: get_assign)
  ultimately show ?thesis using c i by auto
qed

lemma mem_UpdateUser_200:
  assumes "res (UpdateUser (mem_User E) E req (init docs)) = Some r" and "status r = 200"
    and "req_user req = Some caller"
  shows "\<exists>d. by_id (doc_id caller) (db (UpdateUser (mem_User E) E req (init docs))) = Some d \<and>
             get UserName d = b_userName (req_body req) \<and>
             get Email d = b_email (req_body req)"
  using UpdateUser_200 [OF assms(1,2)] assms(3)
  by (auto dest!: mem_findByIdAndUpdate_Some)

lemma mem_deleteUser_200:
  assumes "res (deleteUser (mem_User E) E req (init docs)) = Some r" and "status r = 200"
    and "req_user req = Some caller"
  shows "\<exists>d. by_id (doc_id caller) (db (deleteUser (mem_User E) E req (init docs))) = Some d \<and>
             get IsDeleted d = JBool True \<and> get DeletedAt d = JDate (now E)"
proof -
  obtain user where
    f: "mem_findById (JStr (doc_id caller)) docs = Inr (Some user)" and
    w: "mem_save E (assign DeletedAt (JDate (now E)) (assign IsDeleted (JBool True) user))
          docs = (None, db (deleteUser (mem_User E) E req (init docs)))"
    using deleteUser_200 [OF assms(1,2)] assms(3) by auto
  have "doc_id user = doc_id caller" using mem_findById_Some [OF f] .
  then show ?thesis using mem_save_None [OF w] by (simp add: get_assign)
qed

text \<open>Two accounts in the collection.\<close>

lemma bob_simps [simp]:
  "doc_id bob = ''v''" "get UserName bob = JStr ''bob''" "get Email bob = JStr ''b@x.com''"
  "get IsDeleted bob = JBool False"
  by (simp_all add: bob_def get_def)

lemma mem_findById_alice_bob [simp]:
  "mem_findById (JStr ''u'') [alice, bob] = Inr (Some alice)"
  by (simp add: mem_findById_def by_id_def)

lemma mem_update_alice_bob:
  "mem_findByIdAndUpdate test_env (JStr ''u'')
     [(UserName, JStr ''al''), (Email, JStr ''al@x.com''), (LastUpdate, JDate 1000)]
     [alice, bob] =
   (Inr (Some (assign UpdatedAt (JDate 1000)
                 (assign LastUpdate (JDate 1000)
                    (assign Email (JStr ''al@x.com'')
                       (assign UserName (JStr ''al'') alice))))),
    [assign UpdatedAt (JDate 1000)
       (assign LastUpdate (JDate 1000)
          (assign Email (JStr ''al@x.com'')
             (assign UserName (JStr ''al'') alice))), bob])"
  by (simp add: mem_findByIdAndUpdate_def mem_findById_def by_id_def required_ok_def
      duplicate_key_def replace_doc_def assign_def get_def alice_def bob_def Let_def)

lemma mem_delete_alice_bob:
  "mem_save test_env (assign DeletedAt (JDate 1000) (assign IsDeleted (JBool True) alice))
     [alice, bob] =
   (None,
    [assign UpdatedAt (JDate 1000)
       (assign DeletedAt (JDate 1000) (assign IsDeleted (JBool True) alice)), bob])"
  by (simp add: mem_save_def by_id_def pre_save_def duplicate_key_def replace_doc_def
      assign_def get_def alice_def bob_def Let_def)

text \<open>
  C10. An authenticated update or delete acts on the account identified by
  \<^verbatim>\<open>req.user._id\<close>, whatever the \<^verbatim>\<open>:id\<close> segment of the route is. The routes give the
  same result for any two path ids and the controllers do not read \<^verbatim>\<open>req.params.id\<close>.
  Every call they make to the model is addressed to the caller's id; in the in-memory
  collection the documents with another id are left as they were, and after a 200
  response the document with the caller's id carries the new username and email, or
  the deletion flag and date. For any path id, a request whose token resolves to an
  account is answered with 200 when the update (or the save) of that account
  succeeds, the collection is the one that write leaves, and the calls are the two
  of the middleware, the fetch and the write, all by the id of the token's account.
\<close>

theorem C10_acts_on_caller_id:
  "router U E (Update i) req s = router U E (Update j) req s \<and>
   router U E (Delete i) req s = router U E (Delete j) req s \<and>
   UpdateUser U E (req\<lparr>req_params_id := p\<rparr>) s = UpdateUser U E req s \<and>
   deleteUser U E (req\<lparr>req_params_id := p\<rparr>) s = deleteUser U E req s \<and>
   (req_user req = Some caller \<longrightarrow>
      list_all (acts_on U (db s) (JStr (doc_id caller)))
        (calls_since s (UpdateUser U E req s)) \<and>
      list_all (acts_on U (db s) (JStr (doc_id caller)))
        (calls_since s (deleteUser U E req s)) \<and>
      filter (\<lambda>x. doc_id x \<noteq> doc_id caller)
        (db (UpdateUser (mem_User E) E req (init docs))) =
        filter (\<lambda>x. doc_id x \<noteq> doc_id caller) docs \<and>
      filter (\<lambda>x. doc_id x \<noteq> doc_id caller)
        (db (deleteUser (mem_User E) E req (init docs))) =
        filter (\<lambda>x. doc_id x \<noteq> doc_id caller) docs \<and>
      (\<forall>r. res (UpdateUser (mem_User E) E req (init docs)) = Some r \<and> status r = 200 \<longrightarrow>
         (\<exists>d. by_id (doc_id caller) (db (UpdateUser (mem_User E) E req (init docs))) =
                Some d \<and>
              get UserName d = b_userName (req_body req) \<and>
              get Email d = b_email (req_body req))) \<and>
      (\<forall>r. res (deleteUser (mem_User E) E req (init docs)) = Some r \<and> status r = 200 \<longrightarrow>
         (\<exists>d. by_id (doc_id caller) (db (deleteUser (mem_User E) E req (init docs))) =
                Some d \<and>
              get IsDeleted d = JBool True \<and> get DeletedAt d = JDate (now E)))) \<and>
   (request_token req = JStr t \<and> t \<noteq> [] \<and>
    jwt_verify E t (ACCESS_TOKEN_SECRET E) = Inr decodedToken \<and>
    findById U (decoded_id decodedToken) (db s) = Inr (Some user) \<and>
    findById U (JStr (doc_id user)) (db s) = Inr (Some stored) \<longrightarrow>
      (truthy (b_userName (req_body req)) \<and> truthy (b_email (req_body req)) \<and>
       findByIdAndUpdate U (JStr (doc_id user))
         [(UserName, b_userName (req_body req)), (Email, b_email (req_body req)),
          (LastUpdate, JDate (now E))] (db s) = (Inr (Some updated), coll) \<longrightarrow>
         fst (router U E (Update i) req s) = None \<and>
         res (snd (router U E (Update i) req s)) =
           Some \<lparr>status = 200,
                 json = ApiResponse 200 (PDoc (select_excl [Password, Version] updated))
                          ''User updated successfully''\<rparr> \<and>
         db (snd (router U E (Update i) req s)) = coll \<and>
         calls_since s (snd (router U E (Update i) req s)) =
           [JwtVerify t, FindById (decoded_id decodedToken), FindById (JStr (doc_id user)),
            FindByIdAndUpdate (JStr (doc_id user))
              [(UserName, b_userName (req_body req)), (Email, b_email (req_body req)),
               (LastUpdate, JDate (now E))]]) \<and>
      (save U (assign DeletedAt (JDate (now E)) (assign IsDeleted (JBool True) stored))
         (db s) = (None, coll) \<longrightarrow>
         fst (router U E (Delete i) req s) = None \<and>
         res (snd (router U E (Delete i) req s)) =
           Some \<lparr>status = 200,
                 json = ApiResponse 200 PNull ''User deleted successfully''\<rparr> \<and>
         db (snd (router U E (Delete i) req s)) = coll \<and>
         calls_since s (snd (router U E (Delete i) req s)) =
           [JwtVerify t, FindById (decoded_id decodedToken), FindById (JStr (doc_id user)),
            Save (assign DeletedAt (JDate (now E)) (assign IsDeleted (JBool True) stored))]))"
proof -
  have params:
    "router U E (Update i) req s = router U E (Update j) req s \<and>
     router U E (Delete i) req s = router U E (Delete j) req s \<and>
     UpdateUser U E (req\<lparr>req_params_id := p\<rparr>) s = UpdateUser U E req s \<and>
     deleteUser U E (req\<lparr>req_params_id := p\<rparr>) s = deleteUser U E req s"
    by (simp add: protected_params UpdateUser_params deleteUser_params)
  have caller: "list_all (acts_on U (db s) (JStr (doc_id caller)))
        (calls_since s (UpdateUser U E req s)) \<and>
      list_all (acts_on U (db s) (JStr (doc_id caller)))
        (calls_since s (deleteUser U E req s)) \<and>
      filter (\<lambda>x. doc_id x \<noteq> doc_id caller)
        (db (UpdateUser (mem_User E) E req (init docs))) =
        filter (\<lambda>x. doc_id x \<noteq> doc_id caller) docs \<and>
      filter (\<lambda>x. doc_id x \<noteq> doc_id caller)
        (db (deleteUser (mem_User E) E req (init docs))) =
        filter (\<lambda>x. doc_id x \<noteq> doc_id caller) docs \<and>
      (\<forall>r. res (UpdateUser (mem_User E) E req (init docs)) = Some r \<and> status r = 200 \<longrightarrow>
         (\<exists>d. by_id (doc_id caller) (db (UpdateUser (mem_User E) E req (init docs))) =
                Some d \<and>
              get UserName d = b_userName (req_body req) \<and>
              get Email d = b_email (req_body req))) \<and>
      (\<forall>r. res (deleteUser (mem_User E) E req (init docs)) = Some r \<and> status r = 200 \<longrightarrow>
         (\<exists>d. by_id (doc_id caller) (db (deleteUser (mem_User E) E req (init docs))) =
                Some d \<and>
              get IsDeleted d = JBool True \<and> get DeletedAt d = JDate (now E)))"
    if c: "req_user req = Some caller"
  proof (intro conjI allI impI)
    show "list_all (acts_on U (db s) (JStr (doc_id caller)))
            (calls_since s (UpdateUser U E req s))"
      using c by (rule UpdateUser_calls)
    show "list_all (acts_on U (db s) (JStr (doc_id caller)))
            (calls_since s (deleteUser U E req s))"
      using c by (rule deleteUser_calls)
    have u: "db (UpdateUser (mem_User E) E req (init docs)) = docs \<or>
             db (UpdateUser (mem_User E) E req (init docs)) =
               snd (mem_findByIdAndUpdate E (JStr (doc_id caller))
                      [(UserName, b_userName (req_body req)),
                       (Email, b_email (req_body req)),
                       (LastUpdate, JDate (now E))] docs)"
      using UpdateUser_db [OF c, of "mem_User E" E "init docs"] by simp
    show "filter (\<lambda>x. doc_id x \<noteq> doc_id caller)
            (db (UpdateUser (mem_User E) E req (init docs))) =
          filter (\<lambda>x. doc_id x \<noteq> doc_id caller) docs"
      using u others_mem_findByIdAndUpdate [of "doc_id caller" E _ docs] by metis
    have d: "db (deleteUser (mem_User E) E req (init docs)) = docs \<or>
             (\<exists>found. mem_findById (JStr (doc_id caller)) docs = Inr (Some found) \<and>
                db (deleteUser (mem_User E) E req (init docs)) =
                  snd (mem_save E (assign DeletedAt (JDate (now E))
                                     (assign IsDeleted (JBool True) found)) docs))"
      using deleteUser_db [OF c, of "mem_User E" E "init docs"] by simp
    show "filter (\<lambda>x. doc_id x \<noteq> doc_id caller)
            (db (deleteUser (mem_User E) E req (init docs))) =
          filter (\<lambda>x. doc_id x \<noteq> doc_id caller) docs"
    proof (rule disjE [OF d])
      assume "db (deleteUser (mem_User E) E req (init docs)) = docs"
      then show ?thesis by simp
    next
      assume "\<exists>found. mem_findById (JStr (doc_id caller)) docs = Inr (Some found) \<and>
                db (deleteUser (mem_User E) E req (init docs)) =
                  snd (mem_save E (assign DeletedAt (JDate (now E))
                                     (assign IsDeleted (JBool True) found)) docs)"
      then obtain found where
        f: "mem_findById (JStr (doc_id caller)) docs = Inr (Some found)" and
        e: "db (deleteUser (mem_User E) E req (init docs)) =
              snd (mem_save E (assign DeletedAt (JDate (now E))
                                 (assign IsDeleted (JBool True) found)) docs)"
        by blast
      have "doc_id (assign DeletedAt (JDate (now E)) (assign IsDeleted (JBool True) found)) =
            doc_id caller"
        using mem_findById_Some [OF f] by simp
      then show ?thesis
        using others_mem_save
            [of "assign DeletedAt (JDate (now E)) (assign IsDeleted (JBool True) found)"
                E docs] e
        by simp
    qed
  next
    fix r
    assume "res (UpdateUser (mem_User E) E req (init docs)) = Some r \<and> status r = 200"
    then show "\<exists>d. by_id (doc_id caller)
                     (db (UpdateUser (mem_User E) E req (init docs))) = Some d \<and>
                  get UserName d = b_userName (req_body req) \<and>
                  get Email d = b_email (req_body req)"
      using mem_UpdateUser_200 [of E req docs r caller] c by simp
  next
    fix r
    assume "res (deleteUser (mem_User E) E req (init docs)) = Some r \<and> status r = 200"
    then show "\<exists>d. by_id (doc_id caller)
                     (db (deleteUser (mem_User E) E req (init docs))) = Some d \<and>
                  get IsDeleted d = JBool True \<and> get DeletedAt d = JDate (now E)"
      using mem_deleteUser_200 [of E req docs r caller] c by simp
  qed
  have routed:
    "(truthy (b_userName (req_body req)) \<and> truthy (b_email (req_body req)) \<and>
       findByIdAndUpdate U (JStr (doc_id user))
         [(UserName, b_userName (req_body req)), (Email, b_email (req_body req)),
          (LastUpdate, JDate (now E))] (db s) = (Inr (Some updated), coll) \<longrightarrow>
         fst (router U E (Update i) req s) = None \<and>
         res (snd (router U E (Update i) req s)) =
           Some \<lparr>status = 200,
                 json = ApiResponse 200 (PDoc (select_excl [Password, Version] updated))
                          ''User updated successfully''\<rparr> \<and>
         db (snd (router U E (Update i) req s)) = coll \<and>
         calls_since s (snd (router U E (Update i) req s)) =
           [JwtVerify t, FindById (decoded_id decodedToken), FindById (JStr (doc_id user)),
            FindByIdAndUpdate (JStr (doc_id user))
              [(UserName, b_userName (req_body req)), (Email, b_email (req_body req)),
               (LastUpdate, JDate (now E))]]) \<and>
      (save U (assign DeletedAt (JDate (now E)) (assign IsDeleted (JBool True) stored))
         (db s) = (None, coll) \<longrightarrow>
         fst (router U E (Delete i) req s) = None \<and>
         res (snd (router U E (Delete i) req s)) =
           Some \<lparr>status = 200,
                 json = ApiResponse 200 PNull ''User deleted successfully''\<rparr> \<and>
         db (snd (router U E (Delete i) req s)) = coll \<and>
         calls_since s (snd (router U E (Delete i) req s)) =
           [JwtVerify t, FindById (decoded_id decodedToken), FindById (JStr (doc_id user)),
            Save (assign DeletedAt (JDate (now E)) (assign IsDeleted (JBool True) stored))])"
    if a: "request_token req = JStr t \<and> t \<noteq> [] \<and>
           jwt_verify E t (ACCESS_TOKEN_SECRET E) = Inr decodedToken \<and>
           findById U (decoded_id decodedToken) (db s) = Inr (Some user) \<and>
           findById U (JStr (doc_id user)) (db s) = Inr (Some stored)"
  proof (intro conjI impI)
    assume w: "truthy (b_userName (req_body req)) \<and> truthy (b_email (req_body req)) \<and>
       findByIdAndUpdate U (JStr (doc_id user))
         [(UserName, b_userName (req_body req)), (Email, b_email (req_body req)),
          (LastUpdate, JDate (now E))] (db s) = (Inr (Some updated), coll)"
    note h = router_Update_success
      [of req t E decodedToken U s user stored updated coll i]
    show "fst (router U E (Update i) req s) = None" using h(1) a w by simp
    show "res (snd (router U E (Update i) req s)) =
           Some \<lparr>status = 200,
                 json = ApiResponse 200 (PDoc (select_excl [Password, Version] updated))
                          ''User updated successfully''\<rparr>"
      using h(2) a w by simp
    show "db (snd (router U E (Update i) req s)) = coll" using h(3) a w by simp
    show "calls_since s (snd (router U E (Update i) req s)) =
           [JwtVerify t, FindById (decoded_id decodedToken), FindById (JStr (doc_id user)),
            FindByIdAndUpdate (JStr (doc_id user))
              [(UserName, b_userName (req_body req)), (Email, b_email (req_body req)),
               (LastUpdate, JDate (now E))]]"
      using h(4) a w by simp
  next
    assume w: "save U (assign DeletedAt (JDate (now E)) (assign IsDeleted (JBool True) stored))
         (db s) = (None, coll)"
    note h = router_Delete_success [of req t E decodedToken U s user stored coll i]
    show "fst (router U E (Delete i) req s) = None" using h(1) a w by simp
    show "res (snd (router U E (Delete i) req s)) =
           Some \<lparr>status = 200,
                 json = ApiResponse 200 PNull ''User deleted successfully''\<rparr>"
      using h(2) a w by simp
    show "db (snd (router U E (Delete i) req s)) = coll" using h(3) a w by simp
    show "calls_since s (snd (router U E (Delete i) req s)) =
           [JwtVerify t, FindById (decoded_id decodedToken), FindById (JStr (doc_id user)),
            Save (assign DeletedAt (JDate (now E)) (assign IsDeleted (JBool True) stored))]"
      using h(4) a w by simp
  qed
  show ?thesis
    using params caller routed by blast
qed

theorem C10_acts_on_caller_id_witness:
  "fst (router (mem_User test_env) test_env (Update ''v'')
          (bearer_request ''Bearer A.u'' (JStr ''al'') (JStr ''al@x.com''))
          (init [alice, bob])) = None \<and>
   map (get UserName)
     (db (snd (router (mem_User test_env) test_env (Update ''v'')
                 (bearer_request ''Bearer A.u'' (JStr ''al'') (JStr ''al@x.com''))
                 (init [alice, bob])))) = [JStr ''al'', JStr ''bob''] \<and>
   fst (router (mem_User test_env) test_env (Delete ''v'')
          (bearer_request ''Bearer A.u'' JUndefined JUndefined)
          (init [alice, bob])) = None \<and>
   map (get IsDeleted)
     (db (snd (router (mem_User test_env) test_env (Delete ''v'')
                 (bearer_request ''Bearer A.u'' JUndefined JUndefined)
                 (init [alice, bob])))) = [JBool True, JBool False]"
  using C10_acts_on_caller_id
      [where U = "mem_User test_env" and E = test_env and s = "init [alice, bob]"
         and req = "bearer_request ''Bearer A.u'' (JStr ''al'') (JStr ''al@x.com'')"
         and t = "''A.u''" and decodedToken = "[(''_id'', JStr ''u'')]"
         and user = alice and stored = alice and i = "''v''"
         and updated = "assign UpdatedAt (JDate 1000)
                          (assign LastUpdate (JDate 1000)
                             (assign Email (JStr ''al@x.com'')
                                (assign UserName (JStr ''al'') alice)))"
         and coll = "[assign UpdatedAt (JDate 1000)
                        (assign LastUpdate (JDate 1000)
                           (assign Email (JStr ''al@x.com'')
                              (assign UserName (JStr ''al'') alice))), bob]"]
    C10_acts_on_caller_id
      [where U = "mem_User test_env" and E = test_env and s = "init [alice, bob]"
         and req = "bearer_request ''Bearer A.u'' JUndefined JUndefined"
         and t = "''A.u''" and decodedToken = "[(''_id'', JStr ''u'')]"
         and user = alice and stored = alice and i = "''v''"
         and coll = "[assign UpdatedAt (JDate 1000)
                        (assign DeletedAt (JDate 1000) (assign IsDeleted (JBool True) alice)),
                      bob]"]
  by (simp add: mem_update_alice_bob mem_delete_alice_bob get_assign)

section \<open>Soft-deleted accounts\<close>

text \<open>
  C4. The claim: an account with \<^verbatim>\<open>isDeleted = true\<close> is excluded from login and from
  the authenticated operations. No function of the code reads the flag: it is only
  written, by \<^verbatim>\<open>deleteUser\<close>. For an account whose flag is set, a login with its email
  and password is answered with 200, the middleware authenticates a token for its id,
  and logout, update and delete go through as for any account.
\<close>

theorem C4_deleted_flag_not_read:
  assumes "get IsDeleted user = JBool True"
  shows
    "(truthy (b_email (req_body req)) \<and> truthy (b_password (req_body req)) \<and>
      findOne U (Eq Email (b_email (req_body req))) (db s) = Inr (Some user) \<and>
      isPasswordCorrect E user (b_password (req_body req)) = Inr True \<and>
      findById U (JStr (doc_id user)) (db s) = Inr (Some copy) \<and>
      generateAccessToken E copy = Inr a \<and> generateRefreshToken E copy = Inr r \<and>
      save U (assign RefreshToken (JStr r) copy) (db s) = (None, coll)
      \<longrightarrow> res (loginUser U E req s) =
            Some \<lparr>status = 200,
                  json = ApiResponse 200 (PLogin a user r) ''Login successful''\<rparr>) \<and>
     (request_token req = JStr t \<and> t \<noteq> [] \<and>
      jwt_verify E t (ACCESS_TOKEN_SECRET E) = Inr decodedToken \<and>
      findById U (decoded_id decodedToken) (db s) = Inr (Some user)
      \<longrightarrow> fst (verifyJWT U E req s) =
            Inr (req\<lparr>req_user := Some (select_excl [Password, RefreshToken] user)\<rparr>)) \<and>
     (req_user req = Some caller \<and>
      findById U (JStr (doc_id caller)) (db s) = Inr (Some user)
      \<longrightarrow> (save U (assign RefreshToken JNull user) (db s) = (None, coll)
             \<longrightarrow> res (logoutUser U E req s) =
                   Some \<lparr>status = 200,
                         json = ApiResponse 200 PNull ''Logout successful''\<rparr> \<and>
                 db (logoutUser U E req s) = coll) \<and>
          (truthy (b_userName (req_body req)) \<and> truthy (b_email (req_body req)) \<and>
           findByIdAndUpdate U (JStr (doc_id caller))
             [(UserName, b_userName (req_body req)), (Email, b_email (req_body req)),
              (LastUpdate, JDate (now E))] (db s) = (Inr (Some updated), coll)
             \<longrightarrow> res (UpdateUser U E req s) =
                   Some \<lparr>status = 200,
                         json = ApiResponse 200
                                  (PDoc (select_excl [Password, Version] updated))
                                  ''User updated successfully''\<rparr> \<and>
                 db (UpdateUser U E req s) = coll) \<and>
          (save U (assign DeletedAt (JDate (now E)) (assign IsDeleted (JBool True) user))
             (db s) = (None, coll)
             \<longrightarrow> res (deleteUser U E req s) =
                   Some \<lparr>status = 200,
                         json = ApiResponse 200 PNull ''User deleted successfully''\<rparr> \<and>
                 db (deleteUser U E req s) = coll))"
proof (intro conjI impI)
  assume "truthy (b_email (req_body req)) \<and> truthy (b_password (req_body req)) \<and>
      findOne U (Eq Email (b_email (req_body req))) (db s) = Inr (Some user) \<and>
      isPasswordCorrect E user (b_password (req_body req)) = Inr True \<and>
      findById U (JStr (doc_id user)) (db s) = Inr (Some copy) \<and>
      generateAccessToken E copy = Inr a \<and> generateRefreshToken E copy = Inr r \<and>
      save U (assign RefreshToken (JStr r) copy) (db s) = (None, coll)"
  then show "res (loginUser U E req s) =
      Some \<lparr>status = 200, json = ApiResponse 200 (PLogin a user r) ''Login successful''\<rparr>"
    using loginUser_success(1) [of req U s user E copy a r coll] by simp
next
  assume "request_token req = JStr t \<and> t \<noteq> [] \<and>
      jwt_verify E t (ACCESS_TOKEN_SECRET E) = Inr decodedToken \<and>
      findById U (decoded_id decodedToken) (db s) = Inr (Some user)"
  then show "fst (verifyJWT U E req s) =
      Inr (req\<lparr>req_user := Some (select_excl [Password, RefreshToken] user)\<rparr>)"
    using verifyJWT_success(1) [of req t E decodedToken U s user] by simp
next
  assume c: "req_user req = Some caller \<and>
      findById U (JStr (doc_id caller)) (db s) = Inr (Some user)"
    and w: "save U (assign RefreshToken JNull user) (db s) = (None, coll)"
  show "res (logoutUser U E req s) =
      Some \<lparr>status = 200, json = ApiResponse 200 PNull ''Logout successful''\<rparr>"
    using c w logoutUser_success(1) [of req caller U s user coll E] by simp
  show "db (logoutUser U E req s) = coll"
    using c w logoutUser_success(2) [of req caller U s user coll E] by simp
next
  assume c: "req_user req = Some caller \<and>
      findById U (JStr (doc_id caller)) (db s) = Inr (Some user)"
    and w: "truthy (b_userName (req_body req)) \<and> truthy (b_email (req_body req)) \<and>
           findByIdAndUpdate U (JStr (doc_id caller))
             [(UserName, b_userName (req_body req)), (Email, b_email (req_body req)),
              (LastUpdate, JDate (now E))] (db s) = (Inr (Some updated), coll)"
  show "res (UpdateUser U E req s) =
      Some \<lparr>status = 200,
            json = ApiResponse 200 (PDoc (select_excl [Password, Version] updated))
                     ''User updated successfully''\<rparr>"
    using c w UpdateUser_success(1) [of req caller U s user E updated coll] by simp
  show "db (UpdateUser U E req s) = coll"
    using c w UpdateUser_success(2) [of req caller U s user E updated coll] by simp
next
  assume c: "req_user req = Some caller \<and>
      findById U (JStr (doc_id caller)) (db s) = Inr (Some user)"
    and w: "save U (assign DeletedAt (JDate (now E)) (assign IsDeleted (JBool True) user))
             (db s) = (None, coll)"
  show "res (deleteUser U E req s) =
      Some \<lparr>status = 200, json = ApiResponse 200 PNull ''User deleted successfully''\<rparr>"
    using c w deleteUser_success(1) [of req caller U s user E coll] by simp
  show "db (deleteUser U E req s) = coll"
    using c w deleteUser_success(2) [of req caller U s user E coll] by simp
qed

theorem C4_deleted_flag_not_read_witness:
  "res (loginUser (mem_User test_env) test_env
          (request_with JUndefined (JStr ''a@x.com'') (JStr ''secret1''))
          (init [deleted_alice])) =
     Some \<lparr>status = 200,
           json = ApiResponse 200 (PLogin ''A.u'' deleted_alice ''R.u'') ''Login successful''\<rparr>"
  using C4_deleted_flag_not_read
      [where user = deleted_alice and U = "mem_User test_env" and E = test_env
         and s = "init [deleted_alice]" and copy = deleted_alice
         and a = "''A.u''" and r = "''R.u''"
         and req = "request_with JUndefined (JStr ''a@x.com'') (JStr ''secret1'')"
         and coll = "[assign UpdatedAt (JDate 1000)
                      (assign RefreshToken (JStr ''R.u'') deleted_alice)]"]
  by (simp add: mem_findOne_email mem_save_token)

lemma mem_update_deleted_alice:
  "mem_findByIdAndUpdate test_env (JStr ''u'')
     [(UserName, JStr ''al''), (Email, JStr ''al@x.com''), (LastUpdate, JDate 1000)]
     [deleted_alice] =
   (Inr (Some (assign UpdatedAt (JDate 1000)
                 (assign LastUpdate (JDate 1000)
                    (assign Email (JStr ''al@x.com'')
                       (assign UserName (JStr ''al'') deleted_alice))))),
    [assign UpdatedAt (JDate 1000)
       (assign LastUpdate (JDate 1000)
          (assign Email (JStr ''al@x.com'')
             (assign UserName (JStr ''al'') deleted_alice)))])"
  by (simp add: mem_findByIdAndUpdate_def mem_findById_def by_id_def required_ok_def
      duplicate_key_def replace_doc_def assign_def get_def deleted_alice_def alice_def
      Let_def)

theorem C4_deleted_account_counterexample:
  "get IsDeleted deleted_alice = JBool True \<and>
   res (loginUser (mem_User test_env) test_env
          (request_with JUndefined (JStr ''a@x.com'') (JStr ''secret1''))
          (init [deleted_alice])) =
     Some \<lparr>status = 200,
           json = ApiResponse 200 (PLogin ''A.u'' deleted_alice ''R.u'') ''Login successful''\<rparr> \<and>
   map (get UserName)
     (db (snd (router (mem_User test_env) test_env (Update ''u'')
                 (bearer_request ''Bearer A.u'' (JStr ''al'') (JStr ''al@x.com''))
                 (init [deleted_alice])))) = [JStr ''al'']"
proof -
  let ?M = "mem_User test_env"
  let ?req = "(bearer_request ''Bearer A.u'' (JStr ''al'') (JStr ''al@x.com''))
                \<lparr>req_params_id := Some ''u''\<rparr>"
  let ?s = "init [deleted_alice]"
  let ?caller = "select_excl [Password, RefreshToken] deleted_alice"
  let ?new = "assign UpdatedAt (JDate 1000)
                (assign LastUpdate (JDate 1000)
                   (assign Email (JStr ''al@x.com'')
                      (assign UserName (JStr ''al'') deleted_alice)))"
  have login: "res (loginUser ?M test_env
          (request_with JUndefined (JStr ''a@x.com'') (JStr ''secret1'')) ?s) =
     Some \<lparr>status = 200,
           json = ApiResponse 200 (PLogin ''A.u'' deleted_alice ''R.u'') ''Login successful''\<rparr>"
    using loginUser_success(1)
      [of "request_with JUndefined (JStr ''a@x.com'') (JStr ''secret1'')" ?M ?s
          deleted_alice test_env deleted_alice "''A.u''" "''R.u''"
          "[assign UpdatedAt (JDate 1000)
              (assign RefreshToken (JStr ''R.u'') deleted_alice)]"]
    by (simp add: mem_findOne_email mem_save_token)
  have v1: "fst (verifyJWT ?M test_env ?req ?s) = Inr (?req\<lparr>req_user := Some ?caller\<rparr>)"
    and v2: "db (snd (verifyJWT ?M test_env ?req ?s)) = [deleted_alice]"
    using verifyJWT_success(1,2)
      [of ?req "''A.u''" test_env "[(''_id'', JStr ''u'')]" ?M ?s deleted_alice]
    by simp_all
  have "db (UpdateUser ?M test_env (?req\<lparr>req_user := Some ?caller\<rparr>)
              (snd (verifyJWT ?M test_env ?req ?s))) = [?new]"
    using UpdateUser_success(2)
      [of "?req\<lparr>req_user := Some ?caller\<rparr>" ?caller ?M
          "snd (verifyJWT ?M test_env ?req ?s)" deleted_alice test_env ?new "[?new]"]
      v2
    by (simp add: mem_update_deleted_alice)
  then have "db (snd (router ?M test_env (Update ''u'')
                 (bearer_request ''Bearer A.u'' (JStr ''al'') (JStr ''al@x.com'')) ?s)) =
             [?new]"
    using v1 by (auto simp: protected_def split: prod.splits)
  moreover have "get UserName ?new = JStr ''al''"
    by (simp add: get_def assign_def deleted_alice_def alice_def)
  ultimately show ?thesis using login by simp
qed

end
